theory Spec2Isabelle
  imports Main
begin

section \<open>Data model\<close>

text \<open>
  The Kubernetes API types the module works on. Pointer-typed fields of the Go structs are
  \<open>option\<close>s (\<open>None\<close> is \<open>nil\<close>); slices are lists, so a nil slice and an empty slice, which
  the code tells apart nowhere (it only takes \<open>len\<close>), are both \<open>[]\<close>. Fields that the module
  neither reads nor writes are kept only as far as they identify an entry.
\<close>

record LabelSelector =
  MatchLabels :: "(string \<times> string) list"
  MatchExpressions :: "(string \<times> string \<times> string list) list"

record TopologySpreadConstraint =
  MaxSkew :: int
  tsc_TopologyKey :: string
  WhenUnsatisfiable :: string
  tsc_LabelSelector :: "LabelSelector option"
  tsc_MatchLabelKeys :: "string list"

record PodAffinityTerm =
  pat_LabelSelector :: "LabelSelector option"
  Namespaces :: "string list"
  pat_TopologyKey :: string
  pat_MatchLabelKeys :: "string list"

record WeightedPodAffinityTerm =
  Weight :: int
  wpat_PodAffinityTerm :: PodAffinityTerm

record PodAffinity =
  pa_RequiredDuringSchedulingIgnoredDuringExecution :: "PodAffinityTerm list"
  pa_PreferredDuringSchedulingIgnoredDuringExecution :: "WeightedPodAffinityTerm list"

record PodAntiAffinity =
  paa_RequiredDuringSchedulingIgnoredDuringExecution :: "PodAffinityTerm list"
  paa_PreferredDuringSchedulingIgnoredDuringExecution :: "WeightedPodAffinityTerm list"

record Affinity =
  NodeAffinity :: "string option"
  PodAffinity :: "PodAffinity option"
  PodAntiAffinity :: "PodAntiAffinity option"

record TopologySpec =
  TopologySpreadConstraints :: "TopologySpreadConstraint list option"
  Affinity :: "Affinity option"

text \<open>The Topology custom resource (\<open>topologyv1.Topology\<close>): metadata and specification.\<close>

record Topology =
  Name :: string
  Namespace :: string
  Finalizers :: "string list"
  Spec :: TopologySpec

text \<open>
  Modelled from the spec: the reference descriptor \<open>Topology\<close> of package \<open>topology\<close>
  (the type of \<open>topologyRef\<close>), declared outside \<open>topology.go\<close>: it identifies a target object
  by name and namespace, the empty string meaning "not set".
\<close>

record TopoRef =
  ref_Name :: string
  ref_Namespace :: string

text \<open>
  Go \<open>error\<close> values: the ones made by \<open>fmt.Errorf\<close> and the API status errors of the store,
  which carry a reason.
\<close>

datatype StatusReason = StatusReasonNotFound | StatusReasonConflict | StatusReasonOther string

datatype error = Errorf string | StatusError StatusReason

text \<open>
  Modelled from the spec: \<open>k8s_errors.IsNotFound\<close> (a library outside \<open>src/\<close>) recognises the
  "not found" class of store errors; it is false on the nil error.
\<close>

fun IsNotFound :: "error option \<Rightarrow> bool" where
  "IsNotFound (Some (StatusError StatusReasonNotFound)) = True"
| "IsNotFound _ = False"

record ctrl_Result =
  Requeue :: bool
  RequeueAfter :: nat

definition empty_Result :: ctrl_Result where
  "empty_Result = \<lparr>Requeue = False, RequeueAfter = 0\<rparr>"

text \<open>A call either returns its tuple of results or panics (a nil pointer is dereferenced).\<close>

datatype 'a outcome = Returns 'a | Panics

section \<open>Collaborators and program state\<close>

text \<open>
  What the two operations reach through \<open>h\<close> and the packages they import, over a store of
  type \<open>'w\<close> that they see through these functions only:
  \<^item> \<open>GetFinalizer\<close>: the owner's finalizer prefix, \<open>h.GetFinalizer()\<close>;
  \<^item> \<open>GetTopologyByName\<close>: \<open>topologyv1.GetTopologyByName(ctx, h, name, namespace)\<close>, which
    returns an object pointer (possibly nil), a hash and an error;
  \<^item> \<open>ClientUpdate\<close>: \<open>h.GetClient().Update(ctx, obj)\<close>;
  \<^item> \<open>ObjectHash\<close>: \<open>util.ObjectHash\<close> applied to a specification, returning a hash and an
    error. Modelled from the spec: \<open>util.ObjectHash\<close> is not part of \<open>topology.go\<close>; the spec
    gives it as \<open>ComputeHash(spec) -> (hash, error)\<close>, a deterministic digest, so it is a
    function of the specification alone.
\<close>

record 'w Helper =
  GetFinalizer :: string
  GetTopologyByName :: "string \<Rightarrow> string \<Rightarrow> 'w \<Rightarrow> (Topology option \<times> string \<times> error option) \<times> 'w"
  ClientUpdate :: "Topology \<Rightarrow> 'w \<Rightarrow> error option \<times> 'w"
  ObjectHash :: "TopologySpec \<Rightarrow> string \<times> error option"

text \<open>
  Modelled from the spec: \<open>util.ObjectHash\<close> is not part of \<open>topology.go\<close>. When the
  hash computation fails it hands back no hash ("hash errors are returned verbatim, with
  the copy and empty hash"): the string that comes with an error is empty. This is the
  contract of the collaborator at a specification \<open>sp\<close>.
\<close>

definition ObjectHash_contract :: "'w Helper \<Rightarrow> TopologySpec \<Rightarrow> bool" where
  "ObjectHash_contract h sp =
     (case ObjectHash h sp of (hash, None) \<Rightarrow> True | (hash, Some e) \<Rightarrow> hash = [])"

text \<open>
  The calls made to collaborators, in order. \<open>CallGet\<close> and \<open>CallUpdate\<close> are the store calls;
  \<open>CallUpdate\<close> records the object handed to the store.
\<close>

datatype call =
    CallGet string string
  | CallUpdate Topology
  | CallObjectHash TopologySpec
  | CallLog string

text \<open>
  The state threaded through an operation: the store, the Topology objects the operation
  holds in memory (a pointer is an index into \<open>heap\<close>; objects are only ever added at the
  end), and the trace of collaborator calls.
\<close>

record 'w state =
  world :: 'w
  heap :: "Topology list"
  calls :: "call list"

definition is_store_call :: "call \<Rightarrow> bool" where
  "is_store_call c = (case c of CallGet n ns \<Rightarrow> True | CallUpdate t \<Rightarrow> True
                       | CallObjectHash sp \<Rightarrow> False | CallLog m \<Rightarrow> False)"

definition is_Update :: "call \<Rightarrow> bool" where
  "is_Update c = (case c of CallUpdate t \<Rightarrow> True | CallGet n ns \<Rightarrow> False
                   | CallObjectHash sp \<Rightarrow> False | CallLog m \<Rightarrow> False)"

definition is_ObjectHash :: "call \<Rightarrow> bool" where
  "is_ObjectHash c = (case c of CallObjectHash sp \<Rightarrow> True | CallGet n ns \<Rightarrow> False
                       | CallUpdate t \<Rightarrow> False | CallLog m \<Rightarrow> False)"

text \<open>The fetch: the store is asked, and the object it returns is placed in memory.\<close>

definition call_GetTopologyByName ::
  "'w Helper \<Rightarrow> string \<Rightarrow> string \<Rightarrow> 'w state \<Rightarrow> (nat option \<times> string \<times> error option) \<times> 'w state" where
  "call_GetTopologyByName h name namespace s =
     (case GetTopologyByName h name namespace (world s) of
        ((obj, hash, err), w) \<Rightarrow>
          (case obj of
             None \<Rightarrow>
               ((None, hash, err),
                s\<lparr>world := w, calls := calls s @ [CallGet name namespace]\<rparr>)
           | Some t \<Rightarrow>
               ((Some (length (heap s)), hash, err),
                s\<lparr>world := w, heap := heap s @ [t],
                  calls := calls s @ [CallGet name namespace]\<rparr>)))"

text \<open>
  \<open>Update(ctx, topology)\<close> through a client \<open>upd\<close>: the object behind the pointer is handed
  to the store. Modelled from the spec: \<open>Update(context, object) -> error\<close>; the object in
  memory is read by the call and left as it is.
\<close>

definition call_Update ::
  "(Topology \<Rightarrow> 'w \<Rightarrow> error option \<times> 'w) \<Rightarrow> nat \<Rightarrow> 'w state \<Rightarrow> error option \<times> 'w state" where
  "call_Update upd p s =
     (case upd (heap s ! p) (world s) of
        (err, w) \<Rightarrow> (err, s\<lparr>world := w, calls := calls s @ [CallUpdate (heap s ! p)]\<rparr>))"

definition call_ObjectHash ::
  "'w Helper \<Rightarrow> TopologySpec \<Rightarrow> 'w state \<Rightarrow> (string \<times> error option) \<times> 'w state" where
  "call_ObjectHash h sp s = (ObjectHash h sp, s\<lparr>calls := calls s @ [CallObjectHash sp]\<rparr>)"

definition LogForObject :: "string \<Rightarrow> 'w state \<Rightarrow> 'w state" where
  "LogForObject msg s = s\<lparr>calls := calls s @ [CallLog msg]\<rparr>"

text \<open>
  Modelled from the spec: the finalizer-token add and remove primitives
  (\<open>controllerutil.AddFinalizer\<close> and \<open>RemoveFinalizer\<close>, a library outside \<open>src/\<close>), each
  returning a boolean "changed" flag. Adding appends the token unless it is in the list;
  removing deletes every occurrence.
\<close>

definition AddFinalizer :: "nat \<Rightarrow> string \<Rightarrow> 'w state \<Rightarrow> bool \<times> 'w state" where
  "AddFinalizer p finalizer s =
     (let f = Finalizers (heap s ! p) in
      if finalizer \<in> set f then (False, s)
      else (True, s\<lparr>heap := (heap s)[p := (heap s ! p)\<lparr>Finalizers := f @ [finalizer]\<rparr>]\<rparr>))"

definition RemoveFinalizer :: "nat \<Rightarrow> string \<Rightarrow> 'w state \<Rightarrow> bool \<times> 'w state" where
  "RemoveFinalizer p finalizer s =
     (let f = Finalizers (heap s ! p);
          f' = filter (\<lambda>e. e \<noteq> finalizer) f in
      (length f \<noteq> length f',
       s\<lparr>heap := (heap s)[p := (heap s ! p)\<lparr>Finalizers := f'\<rparr>]\<rparr>))"

text \<open>\<open>topology.DeepCopy()\<close>: a new object with the same content.\<close>

definition DeepCopy :: "nat \<Rightarrow> 'w state \<Rightarrow> nat \<times> 'w state" where
  "DeepCopy p s = (length (heap s), s\<lparr>heap := heap s @ [heap s ! p]\<rparr>)"

text \<open>\<open>fmt.Sprintf("%s-%s", h.GetFinalizer(), finalizer)\<close>\<close>

definition finalizer_token :: "'w Helper \<Rightarrow> string \<Rightarrow> string" where
  "finalizer_token h finalizer = GetFinalizer h @ ''-'' @ finalizer"

section \<open>Default injection\<close>

text \<open>
  The loops \<open>for i := 0; i < len(xs); i++\<close> and \<open>for i := range xs\<close> of \<open>EnsureTopologyRef\<close>,
  whose body updates the entry at index \<open>i\<close> through \<open>current := &xs[i]\<close>.
\<close>

function for_index :: "('a \<Rightarrow> 'a) \<Rightarrow> nat \<Rightarrow> 'a list \<Rightarrow> 'a list" where
  "for_index body i xs =
     (if i < length xs then for_index body (Suc i) (xs[i := body (xs ! i)]) else xs)"
  by pat_completeness auto
termination
  by (relation "measure (\<lambda>(body, i, xs). length xs - i)") auto

declare for_index.simps [simp del]

text \<open>The loop body on a topology-spread constraint (lines 82-87).\<close>

definition default_constraint ::
  "LabelSelector \<Rightarrow> string list \<Rightarrow> TopologySpreadConstraint \<Rightarrow> TopologySpreadConstraint" where
  "default_constraint defaultLabelSelector defaultMatchLabelKeys current =
     (let c1 = (if tsc_LabelSelector current = None
                then current\<lparr>tsc_LabelSelector := Some defaultLabelSelector\<rparr>
                else current) in
      if length (tsc_MatchLabelKeys c1) = 0
      then c1\<lparr>tsc_MatchLabelKeys := defaultMatchLabelKeys\<rparr>
      else c1)"

text \<open>The loop body on a pod-affinity term (lines 96-103, 107-114, 121-128, 132-139).\<close>

definition default_term ::
  "LabelSelector \<Rightarrow> string list \<Rightarrow> PodAffinityTerm \<Rightarrow> PodAffinityTerm" where
  "default_term defaultLabelSelector defaultMatchLabelKeys current =
     (let c1 = (if pat_LabelSelector current = None
                then current\<lparr>pat_LabelSelector := Some defaultLabelSelector\<rparr>
                else current) in
      if length (pat_MatchLabelKeys c1) = 0
      then c1\<lparr>pat_MatchLabelKeys := defaultMatchLabelKeys\<rparr>
      else c1)"

text \<open>In the loops over preferred terms, \<open>current\<close> is the term inside the weighted entry.\<close>

definition default_weighted ::
  "LabelSelector \<Rightarrow> string list \<Rightarrow> WeightedPodAffinityTerm \<Rightarrow> WeightedPodAffinityTerm" where
  "default_weighted defaultLabelSelector defaultMatchLabelKeys w =
     w\<lparr>wpat_PodAffinityTerm :=
         default_term defaultLabelSelector defaultMatchLabelKeys (wpat_PodAffinityTerm w)\<rparr>"

text \<open>Lines 78-142 on the specification of the copy.\<close>

definition fill_defaults :: "LabelSelector \<Rightarrow> string list \<Rightarrow> TopologySpec \<Rightarrow> TopologySpec" where
  "fill_defaults defaultLabelSelector defaultMatchLabelKeys sp =
     (let sp1 =
        (case TopologySpreadConstraints sp of
           None \<Rightarrow> sp
         | Some topologyConstraints \<Rightarrow>
             sp\<lparr>TopologySpreadConstraints :=
                  Some (for_index (default_constraint defaultLabelSelector defaultMatchLabelKeys)
                          0 topologyConstraints)\<rparr>) in
      case Affinity sp1 of
        None \<Rightarrow> sp1
      | Some affinity \<Rightarrow>
          (let a1 =
             (case PodAffinity affinity of
                None \<Rightarrow> affinity
              | Some podAffinity \<Rightarrow>
                  (let pa1 = podAffinity\<lparr>pa_RequiredDuringSchedulingIgnoredDuringExecution :=
                         for_index (default_term defaultLabelSelector defaultMatchLabelKeys) 0
                           (pa_RequiredDuringSchedulingIgnoredDuringExecution podAffinity)\<rparr>;
                       pa2 = pa1\<lparr>pa_PreferredDuringSchedulingIgnoredDuringExecution :=
                         for_index (default_weighted defaultLabelSelector defaultMatchLabelKeys) 0
                           (pa_PreferredDuringSchedulingIgnoredDuringExecution pa1)\<rparr>
                   in affinity\<lparr>PodAffinity := Some pa2\<rparr>));
             a2 =
             (case PodAntiAffinity a1 of
                None \<Rightarrow> a1
              | Some podAntiAffinity \<Rightarrow>
                  (let paa1 = podAntiAffinity\<lparr>paa_RequiredDuringSchedulingIgnoredDuringExecution :=
                         for_index (default_term defaultLabelSelector defaultMatchLabelKeys) 0
                           (paa_RequiredDuringSchedulingIgnoredDuringExecution podAntiAffinity)\<rparr>;
                       paa2 = paa1\<lparr>paa_PreferredDuringSchedulingIgnoredDuringExecution :=
                         for_index (default_weighted defaultLabelSelector defaultMatchLabelKeys) 0
                           (paa_PreferredDuringSchedulingIgnoredDuringExecution paa1)\<rparr>
                   in a1\<lparr>PodAntiAffinity := Some paa2\<rparr>))
           in sp1\<lparr>Affinity := Some a2\<rparr>))"

section \<open>The two operations\<close>

text \<open>
  \<open>EnsureTopologyRef\<close> (lines 40-150). The result is the Go triple: the object pointer
  (or nil), the hash and the error (or nil). The variable \<open>hash\<close> is the empty string until
  \<open>util.ObjectHash\<close> assigns it: the hash that the fetch returns is discarded.
\<close>

definition EnsureTopologyRef ::
  "'w Helper \<Rightarrow> TopoRef option \<Rightarrow> string \<Rightarrow> LabelSelector \<Rightarrow> string list \<Rightarrow> 'w state
     \<Rightarrow> (nat option \<times> string \<times> error option) outcome \<times> 'w state" where
  "EnsureTopologyRef h topologyRef finalizer defaultLabelSelector defaultMatchLabelKeys s =
     (case topologyRef of
        None \<Rightarrow> (Returns (None, [], Some (Errorf ''No valid TopologyRef input passed'')), s)
      | Some r \<Rightarrow>
          if ref_Name r = [] \<or> ref_Namespace r = []
          then (Returns (None, [], Some (Errorf ''No valid TopologyRef input passed'')), s)
          else
            (case call_GetTopologyByName h (ref_Name r) (ref_Namespace r) s of
               ((topology, fetched_hash, err), s1) \<Rightarrow>
                 if err \<noteq> None then (Returns (topology, [], err), s1)
                 else
                   (case topology of
                      None \<Rightarrow> (Panics, s1)
                    | Some p \<Rightarrow>
                        (case AddFinalizer p (finalizer_token h finalizer) s1 of
                           (added, s2) \<Rightarrow>
                             (case (if added then call_Update (ClientUpdate h) p s2
                                    else (None, s2)) of
                                (uerr, s3) \<Rightarrow>
                                  if uerr \<noteq> None then (Returns (Some p, [], uerr), s3)
                                  else
                                    (case DeepCopy p s3 of
                                       (q, s4) \<Rightarrow>
                                         (let s5 = s4\<lparr>heap := (heap s4)[q := (heap s4 ! q)
                                                    \<lparr>Spec := fill_defaults defaultLabelSelector
                                                        defaultMatchLabelKeys
                                                        (Spec (heap s4 ! q))\<rparr>]\<rparr> in
                                          case call_ObjectHash h (Spec (heap s5 ! q)) s5 of
                                            ((hash, herr), s6) \<Rightarrow>
                                              if herr \<noteq> None
                                              then (Returns (Some q, hash, herr), s6)
                                              else (Returns (Some q, hash, None), s6))))))))"

text \<open>
  \<open>EnsureDeletedTopologyRef\<close> (lines 154-188); \<open>c\<close> is the \<open>Update\<close> of the client passed
  in. The result is the pair of a \<open>ctrl.Result\<close> and the error (or nil).
\<close>

definition EnsureDeletedTopologyRef ::
  "'w Helper \<Rightarrow> (Topology \<Rightarrow> 'w \<Rightarrow> error option \<times> 'w) \<Rightarrow> TopoRef option \<Rightarrow> string \<Rightarrow> 'w state
     \<Rightarrow> (ctrl_Result \<times> error option) outcome \<times> 'w state" where
  "EnsureDeletedTopologyRef h c topologyRef finalizer s =
     (case topologyRef of
        None \<Rightarrow> (Returns (empty_Result, None), s)
      | Some r \<Rightarrow>
          if ref_Name r = [] \<or> ref_Namespace r = []
          then (Returns (empty_Result, None), s)
          else
            (case call_GetTopologyByName h (ref_Name r) (ref_Namespace r) s of
               ((topology, fetched_hash, err), s1) \<Rightarrow>
                 if err \<noteq> None \<and> \<not> IsNotFound err then (Returns (empty_Result, err), s1)
                 else if \<not> IsNotFound err then
                   (case topology of
                      None \<Rightarrow> (Panics, s1)
                    | Some p \<Rightarrow>
                        (case RemoveFinalizer p (finalizer_token h finalizer) s1 of
                           (removed, s2) \<Rightarrow>
                             if removed then
                               (case call_Update c p s2 of
                                  (uerr, s3) \<Rightarrow>
                                    if uerr \<noteq> None \<and> \<not> IsNotFound uerr
                                    then (Returns (empty_Result, uerr), s3)
                                    else (Returns (empty_Result, None),
                                          LogForObject ''Removed finalizer from Topology'' s3))
                             else (Returns (empty_Result, None), s2)))
                 else (Returns (empty_Result, None), s1)))"

section \<open>Vocabulary of the properties\<close>

text \<open>A reference is rejected when it is nil or its name or its namespace is empty.\<close>

definition invalid_ref :: "TopoRef option \<Rightarrow> bool" where
  "invalid_ref topologyRef =
     (case topologyRef of None \<Rightarrow> True
      | Some r \<Rightarrow> ref_Name r = [] \<or> ref_Namespace r = [])"

text \<open>The collaborator calls made between two states of one run.\<close>

definition issued :: "'w state \<Rightarrow> 'w state \<Rightarrow> call list" where
  "issued s s' = drop (length (calls s)) (calls s')"

text \<open>The object handed to the store by the finalizer add: the fetched one plus the token.\<close>

definition with_token :: "string \<Rightarrow> Topology \<Rightarrow> Topology" where
  "with_token tok t = t\<lparr>Finalizers := Finalizers t @ [tok]\<rparr>"

text \<open>The fetched object as the finalizer step leaves it: the token is in its list.\<close>

definition ensured :: "string \<Rightarrow> Topology \<Rightarrow> Topology" where
  "ensured tok t = (if tok \<in> set (Finalizers t) then t else with_token tok t)"


text \<open>The object handed to the store by the finalizer removal.\<close>

definition without_token :: "string \<Rightarrow> Topology \<Rightarrow> Topology" where
  "without_token tok t = t\<lparr>Finalizers := filter (\<lambda>e. e \<noteq> tok) (Finalizers t)\<rparr>"

text \<open>
  The fill-missing-only policy in the words of the specification: a label selector is set
  to the default if it is unset, a match-label-keys list is set to the default if it is
  empty, and this holds for every topology-spread constraint and for every required and
  preferred term under pod-affinity and pod-anti-affinity, if present.
\<close>

definition fill_selector :: "LabelSelector \<Rightarrow> LabelSelector option \<Rightarrow> LabelSelector option" where
  "fill_selector d sel = (case sel of None \<Rightarrow> Some d | Some x \<Rightarrow> Some x)"

definition fill_keys :: "string list \<Rightarrow> string list \<Rightarrow> string list" where
  "fill_keys d keys = (if keys = [] then d else keys)"

definition spec_constraint ::
  "LabelSelector \<Rightarrow> string list \<Rightarrow> TopologySpreadConstraint \<Rightarrow> TopologySpreadConstraint" where
  "spec_constraint d k c =
     c\<lparr>tsc_LabelSelector := fill_selector d (tsc_LabelSelector c),
       tsc_MatchLabelKeys := fill_keys k (tsc_MatchLabelKeys c)\<rparr>"

definition spec_term :: "LabelSelector \<Rightarrow> string list \<Rightarrow> PodAffinityTerm \<Rightarrow> PodAffinityTerm" where
  "spec_term d k c =
     c\<lparr>pat_LabelSelector := fill_selector d (pat_LabelSelector c),
       pat_MatchLabelKeys := fill_keys k (pat_MatchLabelKeys c)\<rparr>"

definition spec_weighted ::
  "LabelSelector \<Rightarrow> string list \<Rightarrow> WeightedPodAffinityTerm \<Rightarrow> WeightedPodAffinityTerm" where
  "spec_weighted d k w = w\<lparr>wpat_PodAffinityTerm := spec_term d k (wpat_PodAffinityTerm w)\<rparr>"

definition spec_PodAffinity :: "LabelSelector \<Rightarrow> string list \<Rightarrow> PodAffinity \<Rightarrow> PodAffinity" where
  "spec_PodAffinity d k pa =
     \<lparr>pa_RequiredDuringSchedulingIgnoredDuringExecution =
        map (spec_term d k) (pa_RequiredDuringSchedulingIgnoredDuringExecution pa),
      pa_PreferredDuringSchedulingIgnoredDuringExecution =
        map (spec_weighted d k) (pa_PreferredDuringSchedulingIgnoredDuringExecution pa)\<rparr>"

definition spec_PodAntiAffinity ::
  "LabelSelector \<Rightarrow> string list \<Rightarrow> PodAntiAffinity \<Rightarrow> PodAntiAffinity" where
  "spec_PodAntiAffinity d k paa =
     \<lparr>paa_RequiredDuringSchedulingIgnoredDuringExecution =
        map (spec_term d k) (paa_RequiredDuringSchedulingIgnoredDuringExecution paa),
      paa_PreferredDuringSchedulingIgnoredDuringExecution =
        map (spec_weighted d k) (paa_PreferredDuringSchedulingIgnoredDuringExecution paa)\<rparr>"

definition spec_Affinity :: "LabelSelector \<Rightarrow> string list \<Rightarrow> Affinity \<Rightarrow> Affinity" where
  "spec_Affinity d k a =
     \<lparr>NodeAffinity = NodeAffinity a,
      PodAffinity = map_option (spec_PodAffinity d k) (PodAffinity a),
      PodAntiAffinity = map_option (spec_PodAntiAffinity d k) (PodAntiAffinity a)\<rparr>"

definition spec_fill :: "LabelSelector \<Rightarrow> string list \<Rightarrow> TopologySpec \<Rightarrow> TopologySpec" where
  "spec_fill d k sp =
     \<lparr>TopologySpreadConstraints =
        map_option (map (spec_constraint d k)) (TopologySpreadConstraints sp),
      Affinity = map_option (spec_Affinity d k) (Affinity sp)\<rparr>"

section \<open>A reference store\<close>

text \<open>
  An in-memory store on which the theorems are instantiated: a list of objects looked up
  by name and namespace, with switches that make the next fetch or update fail. A failed
  fetch hands back the empty object it was given to fill, as \<open>GetTopologyByName\<close> does.
\<close>

record store =
  objects :: "Topology list"
  get_fault :: "error option"
  update_fault :: "error option"

definition same_key :: "Topology \<Rightarrow> Topology \<Rightarrow> bool" where
  "same_key t u = (Name u = Name t \<and> Namespace u = Namespace t)"

definition blank_Topology :: Topology where
  "blank_Topology =
     \<lparr>Name = [], Namespace = [], Finalizers = [],
      Spec = \<lparr>TopologySpreadConstraints = None, Affinity = None\<rparr>\<rparr>"

definition store_Get ::
  "string \<Rightarrow> string \<Rightarrow> store \<Rightarrow> (Topology option \<times> string \<times> error option) \<times> store" where
  "store_Get name namespace st =
     (case get_fault st of
        Some e \<Rightarrow> ((Some blank_Topology, [], Some e), st)
      | None \<Rightarrow>
          (case find (\<lambda>u. Name u = name \<and> Namespace u = namespace) (objects st) of
             None \<Rightarrow> ((Some blank_Topology, [], Some (StatusError StatusReasonNotFound)), st)
           | Some t \<Rightarrow> ((Some t, [], None), st)))"

definition store_Update :: "Topology \<Rightarrow> store \<Rightarrow> error option \<times> store" where
  "store_Update t st =
     (case update_fault st of
        Some e \<Rightarrow> (Some e, st)
      | None \<Rightarrow>
          (case find (same_key t) (objects st) of
             None \<Rightarrow> (Some (StatusError StatusReasonNotFound), st)
           | Some u \<Rightarrow>
               (None, st\<lparr>objects := map (\<lambda>u. if same_key t u then t else u) (objects st)\<rparr>)))"

text \<open>
  A digest with few values, standing in for \<open>util.ObjectHash\<close>: it tells only whether
  spread constraints and affinity are present. With \<open>hash_fault\<close> set it fails, returning
  the empty hash and the error.
\<close>

definition presence_hash :: "error option \<Rightarrow> TopologySpec \<Rightarrow> string \<times> error option" where
  "presence_hash hash_fault sp =
     (case hash_fault of
        Some e \<Rightarrow> ([], Some e)
      | None \<Rightarrow>
          ((if TopologySpreadConstraints sp = None then ''n0'' else ''n1'')
             @ (if Affinity sp = None then ''a0'' else ''a1''), None))"

definition store_Helper :: "error option \<Rightarrow> store Helper" where
  "store_Helper hash_fault =
     \<lparr>GetFinalizer = ''svc-operator'', GetTopologyByName = store_Get,
      ClientUpdate = store_Update, ObjectHash = presence_hash hash_fault\<rparr>"

text \<open>Sample objects: a selector, constraints with and without their own values, a target.\<close>

definition app_selector :: LabelSelector where
  "app_selector = \<lparr>MatchLabels = [(''app'', ''db'')], MatchExpressions = []\<rparr>"

definition service_selector :: LabelSelector where
  "service_selector = \<lparr>MatchLabels = [(''service'', ''myservice'')], MatchExpressions = []\<rparr>"

definition bare_constraint :: TopologySpreadConstraint where
  "bare_constraint =
     \<lparr>MaxSkew = 1, tsc_TopologyKey = ''zone'', WhenUnsatisfiable = ''DoNotSchedule'',
      tsc_LabelSelector = None, tsc_MatchLabelKeys = []\<rparr>"

definition set_constraint :: TopologySpreadConstraint where
  "set_constraint =
     \<lparr>MaxSkew = 2, tsc_TopologyKey = ''host'', WhenUnsatisfiable = ''ScheduleAnyway'',
      tsc_LabelSelector = Some app_selector, tsc_MatchLabelKeys = [''rev'']\<rparr>"

definition bare_term :: PodAffinityTerm where
  "bare_term =
     \<lparr>pat_LabelSelector = None, Namespaces = [], pat_TopologyKey = ''zone'',
      pat_MatchLabelKeys = []\<rparr>"

definition sample_spec :: TopologySpec where
  "sample_spec =
     \<lparr>TopologySpreadConstraints = Some [bare_constraint, set_constraint],
      Affinity = Some
        \<lparr>NodeAffinity = None,
         PodAffinity = Some
           \<lparr>pa_RequiredDuringSchedulingIgnoredDuringExecution = [bare_term],
            pa_PreferredDuringSchedulingIgnoredDuringExecution =
              [\<lparr>Weight = 10, wpat_PodAffinityTerm = bare_term\<rparr>]\<rparr>,
         PodAntiAffinity = None\<rparr>\<rparr>"

definition sample_Topology :: "string list \<Rightarrow> Topology" where
  "sample_Topology fs =
     \<lparr>Name = ''topo'', Namespace = ''openstack'', Finalizers = fs, Spec = sample_spec\<rparr>"

definition sample_ref :: TopoRef where
  "sample_ref = \<lparr>ref_Name = ''topo'', ref_Namespace = ''openstack''\<rparr>"

definition sample_state :: "Topology list \<Rightarrow> error option \<Rightarrow> error option \<Rightarrow> store state" where
  "sample_state objs gf uf =
     \<lparr>world = \<lparr>objects = objs, get_fault = gf, update_fault = uf\<rparr>, heap = [], calls = []\<rparr>"

text \<open>
  The state in which a first attach of \<open>myservice\<close> to the sample target, in a store
  without faults, ends: the token is persisted, memory holds the fetched object and its
  defaulted copy.
\<close>

definition attached_state :: "LabelSelector \<Rightarrow> string list \<Rightarrow> store state" where
  "attached_state d k =
     \<lparr>world = \<lparr>objects = [sample_Topology [''svc-operator-myservice'']],
               get_fault = None, update_fault = None\<rparr>,
      heap = [sample_Topology [''svc-operator-myservice''],
              (sample_Topology [''svc-operator-myservice''])
                \<lparr>Spec := fill_defaults d k sample_spec\<rparr>],
      calls = [CallGet ''topo'' ''openstack'',
               CallUpdate (sample_Topology [''svc-operator-myservice'']),
               CallObjectHash (fill_defaults d k sample_spec)]\<rparr>"

text \<open>A detach of \<open>myservice\<close> from the sample target through the store's own \<open>Update\<close>.\<close>

definition sample_detach ::
  "store state \<Rightarrow> (ctrl_Result \<times> error option) outcome \<times> store state" where
  "sample_detach s =
     EnsureDeletedTopologyRef (store_Helper None) store_Update (Some sample_ref) ''myservice'' s"






section \<open>The loops\<close>

lemma for_index_take_drop:
  "i \<le> length xs \<Longrightarrow> for_index body i xs = take i xs @ map body (drop i xs)"
proof (induction body i xs rule: for_index.induct)
  case (1 body i xs)
  show ?case
  proof (cases "i < length xs")
    case True
    have "for_index body i xs = for_index body (Suc i) (xs[i := body (xs ! i)])"
      using True by (simp add: for_index.simps [of body i xs])
    also have "\<dots> = take (Suc i) (xs[i := body (xs ! i)])
                      @ map body (drop (Suc i) (xs[i := body (xs ! i)]))"
      using True "1.IH" by simp
    also have "\<dots> = take i xs @ map body (drop i xs)"
      using True by (simp add: take_Suc_conv_app_nth Cons_nth_drop_Suc [symmetric])
    finally show ?thesis .
  next
    case False
    with "1.prems" have "i = length xs" by simp
    then show ?thesis by (simp add: for_index.simps [of body "length xs" xs])
  qed
qed

lemma for_index_map: "for_index body 0 xs = map body xs"
  by (simp add: for_index_take_drop)

section \<open>Default injection is the fill-missing-only policy\<close>

lemma default_constraint_spec: "default_constraint d k c = spec_constraint d k c"
  by (cases "tsc_LabelSelector c")
     (simp_all add: default_constraint_def spec_constraint_def fill_selector_def fill_keys_def)

lemma default_term_spec: "default_term d k c = spec_term d k c"
  by (cases "pat_LabelSelector c")
     (simp_all add: default_term_def spec_term_def fill_selector_def fill_keys_def)

lemma default_weighted_spec: "default_weighted d k w = spec_weighted d k w"
  by (simp add: default_weighted_def spec_weighted_def default_term_spec)

lemma fill_defaults_spec: "fill_defaults d k sp = spec_fill d k sp"
proof -
  have c: "default_constraint d k = spec_constraint d k"
    and t: "default_term d k = spec_term d k"
    and w: "default_weighted d k = spec_weighted d k"
    by (rule ext, simp add: default_constraint_spec default_term_spec default_weighted_spec)+
  show ?thesis
    by (simp add: fill_defaults_def spec_fill_def spec_Affinity_def spec_PodAffinity_def
        spec_PodAntiAffinity_def for_index_map c t w Let_def split: option.splits)
qed

section \<open>The paths through EnsureTopologyRef\<close>

lemmas ETR_defs = EnsureTopologyRef_def call_GetTopologyByName_def AddFinalizer_def
  call_Update_def DeepCopy_def call_ObjectHash_def with_token_def Let_def

lemma ETR_invalid:
  "invalid_ref topologyRef \<Longrightarrow>
   EnsureTopologyRef h topologyRef finalizer dls dmlk s =
     (Returns (None, [], Some (Errorf ''No valid TopologyRef input passed'')), s)"
  by (auto simp: EnsureTopologyRef_def invalid_ref_def split: option.splits)

lemma ETR_fetch_error:
  assumes "ref_Name r \<noteq> []" "ref_Namespace r \<noteq> []"
    and "GetTopologyByName h (ref_Name r) (ref_Namespace r) (world s) = ((obj, hh, Some e), w)"
  shows "EnsureTopologyRef h (Some r) finalizer dls dmlk s =
     (Returns (map_option (\<lambda>t. length (heap s)) obj, [], Some e),
      s\<lparr>world := w, heap := heap s @ (case obj of None \<Rightarrow> [] | Some t \<Rightarrow> [t]),
        calls := calls s @ [CallGet (ref_Name r) (ref_Namespace r)]\<rparr>)"
  using assms by (cases obj) (simp_all add: ETR_defs)

lemma ETR_nil_object:
  assumes "ref_Name r \<noteq> []" "ref_Namespace r \<noteq> []"
    and "GetTopologyByName h (ref_Name r) (ref_Namespace r) (world s) = ((None, hh, None), w)"
  shows "EnsureTopologyRef h (Some r) finalizer dls dmlk s =
     (Panics, s\<lparr>world := w, calls := calls s @ [CallGet (ref_Name r) (ref_Namespace r)]\<rparr>)"
  using assms by (simp add: ETR_defs)

lemma ETR_present:
  assumes "ref_Name r \<noteq> []" "ref_Namespace r \<noteq> []"
    and "GetTopologyByName h (ref_Name r) (ref_Namespace r) (world s) = ((Some t, hh, None), w)"
    and "finalizer_token h finalizer \<in> set (Finalizers t)"
  shows "EnsureTopologyRef h (Some r) finalizer dls dmlk s =
     (Returns (Some (Suc (length (heap s))),
               fst (ObjectHash h (fill_defaults dls dmlk (Spec t))),
               snd (ObjectHash h (fill_defaults dls dmlk (Spec t)))),
      s\<lparr>world := w,
        heap := heap s @ [t, t\<lparr>Spec := fill_defaults dls dmlk (Spec t)\<rparr>],
        calls := calls s @ [CallGet (ref_Name r) (ref_Namespace r),
                            CallObjectHash (fill_defaults dls dmlk (Spec t))]\<rparr>)"
  using assms by (simp add: ETR_defs nth_append list_update_append split: prod.splits)

lemma ETR_update_error:
  assumes "ref_Name r \<noteq> []" "ref_Namespace r \<noteq> []"
    and "GetTopologyByName h (ref_Name r) (ref_Namespace r) (world s) = ((Some t, hh, None), w)"
    and "finalizer_token h finalizer \<notin> set (Finalizers t)"
    and "ClientUpdate h (with_token (finalizer_token h finalizer) t) w = (Some e, w')"
  shows "EnsureTopologyRef h (Some r) finalizer dls dmlk s =
     (Returns (Some (length (heap s)), [], Some e),
      s\<lparr>world := w',
        heap := heap s @ [with_token (finalizer_token h finalizer) t],
        calls := calls s @ [CallGet (ref_Name r) (ref_Namespace r),
                            CallUpdate (with_token (finalizer_token h finalizer) t)]\<rparr>)"
  using assms by (simp add: ETR_defs nth_append list_update_append split: prod.splits)

lemma ETR_added:
  assumes "ref_Name r \<noteq> []" "ref_Namespace r \<noteq> []"
    and "GetTopologyByName h (ref_Name r) (ref_Namespace r) (world s) = ((Some t, hh, None), w)"
    and "finalizer_token h finalizer \<notin> set (Finalizers t)"
    and "ClientUpdate h (with_token (finalizer_token h finalizer) t) w = (None, w')"
  shows "EnsureTopologyRef h (Some r) finalizer dls dmlk s =
     (Returns (Some (Suc (length (heap s))),
               fst (ObjectHash h (fill_defaults dls dmlk (Spec t))),
               snd (ObjectHash h (fill_defaults dls dmlk (Spec t)))),
      s\<lparr>world := w',
        heap := heap s @ [with_token (finalizer_token h finalizer) t,
                          (with_token (finalizer_token h finalizer) t)
                            \<lparr>Spec := fill_defaults dls dmlk (Spec t)\<rparr>],
        calls := calls s @ [CallGet (ref_Name r) (ref_Namespace r),
                            CallUpdate (with_token (finalizer_token h finalizer) t),
                            CallObjectHash (fill_defaults dls dmlk (Spec t))]\<rparr>)"
  using assms by (simp add: ETR_defs nth_append list_update_append split: prod.splits)

section \<open>The paths through EnsureDeletedTopologyRef\<close>

lemmas EDT_defs = EnsureDeletedTopologyRef_def call_GetTopologyByName_def RemoveFinalizer_def
  call_Update_def LogForObject_def without_token_def Let_def

lemma EDT_invalid:
  "invalid_ref topologyRef \<Longrightarrow>
   EnsureDeletedTopologyRef h c topologyRef finalizer s = (Returns (empty_Result, None), s)"
  by (auto simp: EnsureDeletedTopologyRef_def invalid_ref_def split: option.splits)

lemma EDT_not_found:
  assumes "ref_Name r \<noteq> []" "ref_Namespace r \<noteq> []"
    and "GetTopologyByName h (ref_Name r) (ref_Namespace r) (world s) = ((obj, hh, err), w)"
    and "IsNotFound err"
  shows "EnsureDeletedTopologyRef h c (Some r) finalizer s =
     (Returns (empty_Result, None),
      s\<lparr>world := w, heap := heap s @ (case obj of None \<Rightarrow> [] | Some t \<Rightarrow> [t]),
        calls := calls s @ [CallGet (ref_Name r) (ref_Namespace r)]\<rparr>)"
  using assms by (cases obj) (simp_all add: EDT_defs)

lemma EDT_fetch_error:
  assumes "ref_Name r \<noteq> []" "ref_Namespace r \<noteq> []"
    and "GetTopologyByName h (ref_Name r) (ref_Namespace r) (world s) = ((obj, hh, Some e), w)"
    and "\<not> IsNotFound (Some e)"
  shows "EnsureDeletedTopologyRef h c (Some r) finalizer s =
     (Returns (empty_Result, Some e),
      s\<lparr>world := w, heap := heap s @ (case obj of None \<Rightarrow> [] | Some t \<Rightarrow> [t]),
        calls := calls s @ [CallGet (ref_Name r) (ref_Namespace r)]\<rparr>)"
  using assms by (cases obj) (simp_all add: EDT_defs)

lemma filter_absent: "x \<notin> set xs \<Longrightarrow> filter (\<lambda>e. e \<noteq> x) xs = xs"
  by (induction xs) auto

lemma filter_present_shorter: "x \<in> set xs \<Longrightarrow> length xs \<noteq> length (filter (\<lambda>e. e \<noteq> x) xs)"
proof -
  assume "x \<in> set xs"
  then have "length (filter (\<lambda>e. e \<noteq> x) xs) < length xs"
    by (intro length_filter_less[of x]) auto
  then show ?thesis by simp
qed

lemma EDT_absent:
  assumes "ref_Name r \<noteq> []" "ref_Namespace r \<noteq> []"
    and "GetTopologyByName h (ref_Name r) (ref_Namespace r) (world s) = ((Some t, hh, None), w)"
    and "finalizer_token h finalizer \<notin> set (Finalizers t)"
  shows "EnsureDeletedTopologyRef h c (Some r) finalizer s =
     (Returns (empty_Result, None),
      s\<lparr>world := w, heap := heap s @ [t],
        calls := calls s @ [CallGet (ref_Name r) (ref_Namespace r)]\<rparr>)"
  using assms by (simp add: EDT_defs nth_append list_update_append filter_absent)

lemma EDT_removed:
  assumes "ref_Name r \<noteq> []" "ref_Namespace r \<noteq> []"
    and "GetTopologyByName h (ref_Name r) (ref_Namespace r) (world s) = ((Some t, hh, None), w)"
    and "finalizer_token h finalizer \<in> set (Finalizers t)"
    and "c (without_token (finalizer_token h finalizer) t) w = (uerr, w')"
  shows "EnsureDeletedTopologyRef h c (Some r) finalizer s =
     (if uerr \<noteq> None \<and> \<not> IsNotFound uerr
      then (Returns (empty_Result, uerr),
            s\<lparr>world := w',
              heap := heap s @ [without_token (finalizer_token h finalizer) t],
              calls := calls s @ [CallGet (ref_Name r) (ref_Namespace r),
                        CallUpdate (without_token (finalizer_token h finalizer) t)]\<rparr>)
      else (Returns (empty_Result, None),
            s\<lparr>world := w',
              heap := heap s @ [without_token (finalizer_token h finalizer) t],
              calls := calls s @ [CallGet (ref_Name r) (ref_Namespace r),
                        CallUpdate (without_token (finalizer_token h finalizer) t),
                        CallLog ''Removed finalizer from Topology'']\<rparr>))"
  using assms
  by (simp add: EDT_defs nth_append list_update_append filter_present_shorter)

section \<open>Instantiating the reference store\<close>

lemmas sample_defs = store_Helper_def store_Get_def store_Update_def presence_hash_def
  same_key_def blank_Topology_def sample_Topology_def sample_ref_def sample_state_def
  sample_spec_def bare_constraint_def set_constraint_def bare_term_def app_selector_def
  service_selector_def finalizer_token_def

lemma sample_Topology_fields:
  "Name (sample_Topology fs) = ''topo''"
  "Namespace (sample_Topology fs) = ''openstack''"
  "Finalizers (sample_Topology fs) = fs"
  "Spec (sample_Topology fs) = sample_spec"
  "with_token tok (sample_Topology fs) = sample_Topology (fs @ [tok])"
  "without_token tok (sample_Topology fs) = sample_Topology (filter (\<lambda>e. e \<noteq> tok) fs)"
  by (simp_all add: sample_Topology_def with_token_def without_token_def)

lemma sample_ref_fields:
  "ref_Name sample_ref = ''topo''" "ref_Namespace sample_ref = ''openstack''"
  by (simp_all add: sample_ref_def)

lemma sample_token: "finalizer_token (store_Helper hf) ''myservice'' = ''svc-operator-myservice''"
  by (simp add: finalizer_token_def store_Helper_def)

lemma sample_Get:
  "GetTopologyByName (store_Helper hf) ''topo'' ''openstack''
     \<lparr>objects = [sample_Topology fs], get_fault = None, update_fault = uf\<rparr> =
   ((Some (sample_Topology fs), [], None),
    \<lparr>objects = [sample_Topology fs], get_fault = None, update_fault = uf\<rparr>)"
  by (simp add: store_Helper_def store_Get_def sample_Topology_def)

lemma sample_Get_missing:
  "GetTopologyByName (store_Helper hf) ''topo'' ''openstack''
     \<lparr>objects = [], get_fault = None, update_fault = uf\<rparr> =
   ((Some blank_Topology, [], Some (StatusError StatusReasonNotFound)),
    \<lparr>objects = [], get_fault = None, update_fault = uf\<rparr>)"
  by (simp add: store_Helper_def store_Get_def)

lemma sample_Get_fault:
  "GetTopologyByName (store_Helper hf) ''topo'' ''openstack''
     \<lparr>objects = objs, get_fault = Some e, update_fault = uf\<rparr> =
   ((Some blank_Topology, [], Some e),
    \<lparr>objects = objs, get_fault = Some e, update_fault = uf\<rparr>)"
  by (simp add: store_Helper_def store_Get_def)

lemma sample_Update:
  "store_Update (sample_Topology fs')
     \<lparr>objects = [sample_Topology fs], get_fault = gf, update_fault = None\<rparr> =
   (None, \<lparr>objects = [sample_Topology fs'], get_fault = gf, update_fault = None\<rparr>)"
  by (simp add: store_Update_def same_key_def sample_Topology_def)

lemma sample_Update_fault:
  "store_Update t \<lparr>objects = objs, get_fault = gf, update_fault = Some e\<rparr> =
   (Some e, \<lparr>objects = objs, get_fault = gf, update_fault = Some e\<rparr>)"
  by (simp add: store_Update_def)

lemma sample_ClientUpdate: "ClientUpdate (store_Helper hf) = store_Update"
  by (simp add: store_Helper_def)

lemma sample_hash:
  "ObjectHash (store_Helper None) (fill_defaults d k sample_spec) = (''n1a1'', None)"
  "ObjectHash (store_Helper (Some e)) sp = ([], Some e)"
  by (simp_all add: store_Helper_def presence_hash_def fill_defaults_spec spec_fill_def
      sample_spec_def)

lemmas sample_simps = sample_Topology_fields sample_ref_fields sample_token sample_Get
  sample_Get_missing sample_Get_fault sample_Update sample_Update_fault sample_ClientUpdate
  sample_hash sample_state_def

section \<open>Invalid references\<close>

text \<open>
  Claim C3. For every reference that is nil or has an empty name or an empty namespace,
  \<open>EnsureTopologyRef\<close> returns the invalid-reference error and \<open>EnsureDeletedTopologyRef\<close>
  returns a nil error; both leave the state as it was, so neither makes a store call (no
  fetch, no update): the list of calls issued is empty.
\<close>

theorem EnsureTopologyRef_invalid_reference:
  assumes "invalid_ref topologyRef"
  shows "EnsureTopologyRef h topologyRef finalizer dls dmlk s =
           (Returns (None, [], Some (Errorf ''No valid TopologyRef input passed'')), s)
       \<and> issued s (snd (EnsureTopologyRef h topologyRef finalizer dls dmlk s)) = []
       \<and> EnsureDeletedTopologyRef h c topologyRef finalizer s = (Returns (empty_Result, None), s)
       \<and> issued s (snd (EnsureDeletedTopologyRef h c topologyRef finalizer s)) = []"
  using assms by (simp add: ETR_invalid EDT_invalid issued_def)

theorem EnsureTopologyRef_invalid_reference_witness:
  "invalid_ref (Some \<lparr>ref_Name = ''topo'', ref_Namespace = []\<rparr>)
   \<and> EnsureTopologyRef (store_Helper None) (Some \<lparr>ref_Name = ''topo'', ref_Namespace = []\<rparr>)
        ''myservice'' service_selector [''pod-template-hash'']
        (sample_state [sample_Topology []] None None) =
       (Returns (None, [], Some (Errorf ''No valid TopologyRef input passed'')),
        sample_state [sample_Topology []] None None)
   \<and> EnsureDeletedTopologyRef (store_Helper None) store_Update
        (Some \<lparr>ref_Name = ''topo'', ref_Namespace = []\<rparr>) ''myservice''
        (sample_state [sample_Topology []] None None) =
       (Returns (empty_Result, None), sample_state [sample_Topology []] None None)"
proof -
  have inv: "invalid_ref (Some \<lparr>ref_Name = ''topo'', ref_Namespace = []\<rparr>)"
    by (simp add: invalid_ref_def)
  from EnsureTopologyRef_invalid_reference [OF inv, where h = "store_Helper None"
      and c = store_Update and finalizer = "''myservice''" and dls = service_selector
      and dmlk = "[''pod-template-hash'']" and s = "sample_state [sample_Topology []] None None"]
    inv
  show ?thesis by simp
qed

section \<open>Failure of the fetch\<close>

text \<open>
  Claim C6. Whenever the fetch of the target object fails, with a not-found error or any
  other, \<open>EnsureTopologyRef\<close> returns that very error, with the empty hash and the pointer
  the fetch gave. The fetch is the only call issued: no \<open>Update\<close> and no hashing. The
  store is as the fetch left it, and memory holds at most the object the fetch handed
  back, as it came: no finalizer was added to it and no copy was made or defaulted.
\<close>

theorem EnsureTopologyRef_fetch_error:
  assumes "ref_Name r \<noteq> []" and "ref_Namespace r \<noteq> []"
    and "GetTopologyByName h (ref_Name r) (ref_Namespace r) (world s) = ((obj, hh, Some e), w)"
    and "EnsureTopologyRef h (Some r) finalizer dls dmlk s = (res, s')"
  shows "res = Returns (map_option (\<lambda>t. length (heap s)) obj, [], Some e)
       \<and> issued s s' = [CallGet (ref_Name r) (ref_Namespace r)]
       \<and> world s' = w
       \<and> heap s' = heap s @ (case obj of None \<Rightarrow> [] | Some t \<Rightarrow> [t])"
  using assms(4) ETR_fetch_error [OF assms(1-3), of finalizer dls dmlk]
  by (auto simp: issued_def)

theorem EnsureTopologyRef_fetch_error_witness:
  "ref_Name sample_ref \<noteq> [] \<and> ref_Namespace sample_ref \<noteq> []
   \<and> GetTopologyByName (store_Helper None) (ref_Name sample_ref) (ref_Namespace sample_ref)
        (world (sample_state [] None None)) =
       ((Some blank_Topology, [], Some (StatusError StatusReasonNotFound)),
        world (sample_state [] None None))
   \<and> EnsureTopologyRef (store_Helper None) (Some sample_ref) ''myservice'' service_selector
        [''pod-template-hash''] (sample_state [] None None) =
       (Returns (Some 0, [], Some (StatusError StatusReasonNotFound)),
        \<lparr>world = \<lparr>objects = [], get_fault = None, update_fault = None\<rparr>,
         heap = [blank_Topology], calls = [CallGet ''topo'' ''openstack'']\<rparr>)
   \<and> issued (sample_state [] None None)
        \<lparr>world = \<lparr>objects = [], get_fault = None, update_fault = None\<rparr>,
         heap = [blank_Topology], calls = [CallGet ''topo'' ''openstack'']\<rparr> =
       [CallGet ''topo'' ''openstack'']"
proof -
  have n: "ref_Name sample_ref \<noteq> []" and ns: "ref_Namespace sample_ref \<noteq> []"
    by (simp_all add: sample_ref_def)
  have f: "GetTopologyByName (store_Helper None) (ref_Name sample_ref) (ref_Namespace sample_ref)
        (world (sample_state [] None None)) =
       ((Some blank_Topology, [], Some (StatusError StatusReasonNotFound)),
        world (sample_state [] None None))"
    by (simp add: sample_defs)
  have run: "EnsureTopologyRef (store_Helper None) (Some sample_ref) ''myservice'' service_selector
        [''pod-template-hash''] (sample_state [] None None) =
       (Returns (Some 0, [], Some (StatusError StatusReasonNotFound)),
        \<lparr>world = \<lparr>objects = [], get_fault = None, update_fault = None\<rparr>,
         heap = [blank_Topology], calls = [CallGet ''topo'' ''openstack'']\<rparr>)"
    by (simp add: ETR_defs sample_defs)
  from EnsureTopologyRef_fetch_error [OF n ns f run] n ns f run show ?thesis
    by (simp add: sample_ref_def sample_state_def)
qed

section \<open>Runs on the reference store\<close>

lemma sample_attach_fresh:
  "EnsureTopologyRef (store_Helper None) (Some sample_ref) ''myservice'' d k
     (sample_state [sample_Topology []] None None) =
   (Returns (Some 1, ''n1a1'', None), attached_state d k)"
proof -
  let ?s = "sample_state [sample_Topology []] None None"
  have n: "ref_Name sample_ref \<noteq> []" and ns: "ref_Namespace sample_ref \<noteq> []"
    by (simp_all add: sample_simps)
  have f: "GetTopologyByName (store_Helper None) (ref_Name sample_ref) (ref_Namespace sample_ref)
      (world ?s) = ((Some (sample_Topology []), [], None), world ?s)"
    by (simp add: sample_simps)
  have a: "finalizer_token (store_Helper None) ''myservice'' \<notin> set (Finalizers (sample_Topology []))"
    by (simp add: sample_simps)
  have u: "ClientUpdate (store_Helper None)
      (with_token (finalizer_token (store_Helper None) ''myservice'') (sample_Topology []))
      (world ?s) =
      (None, \<lparr>objects = [sample_Topology [''svc-operator-myservice'']],
               get_fault = None, update_fault = None\<rparr>)"
    by (simp add: sample_simps)
  from ETR_added [OF n ns f a u, of d k] show ?thesis
    by (simp add: sample_simps attached_state_def)
qed

lemma sample_attach_again:
  "EnsureTopologyRef (store_Helper hf) (Some sample_ref) ''myservice'' d k
     \<lparr>world = \<lparr>objects = [sample_Topology [''svc-operator-myservice'']],
               get_fault = None, update_fault = uf\<rparr>, heap = hp, calls = cs\<rparr> =
   (Returns (Some (Suc (length hp)),
             fst (ObjectHash (store_Helper hf) (fill_defaults d k sample_spec)),
             snd (ObjectHash (store_Helper hf) (fill_defaults d k sample_spec))),
    \<lparr>world = \<lparr>objects = [sample_Topology [''svc-operator-myservice'']],
              get_fault = None, update_fault = uf\<rparr>,
     heap = hp @ [sample_Topology [''svc-operator-myservice''],
             (sample_Topology [''svc-operator-myservice''])
               \<lparr>Spec := fill_defaults d k sample_spec\<rparr>],
     calls = cs @ [CallGet ''topo'' ''openstack'',
              CallObjectHash (fill_defaults d k sample_spec)]\<rparr>)"
proof -
  let ?w = "\<lparr>objects = [sample_Topology [''svc-operator-myservice'']],
               get_fault = None, update_fault = uf\<rparr>"
  let ?s = "\<lparr>world = ?w, heap = hp, calls = cs\<rparr>"
  have n: "ref_Name sample_ref \<noteq> []" and ns: "ref_Namespace sample_ref \<noteq> []"
    by (simp_all add: sample_simps)
  have f: "GetTopologyByName (store_Helper hf) (ref_Name sample_ref) (ref_Namespace sample_ref)
      (world ?s) = ((Some (sample_Topology [''svc-operator-myservice'']), [], None), ?w)"
    by (simp add: sample_simps)
  have a: "finalizer_token (store_Helper hf) ''myservice''
      \<in> set (Finalizers (sample_Topology [''svc-operator-myservice'']))"
    by (simp add: sample_simps)
  from ETR_present [OF n ns f a, of d k] show ?thesis
    by (simp add: sample_simps)
qed

section \<open>The returned object carries the token\<close>

text \<open>
  Claim C10. Whenever \<open>EnsureTopologyRef\<close> returns a nil error, it returns a pointer to an
  object held in memory whose finalizer list contains the token
  \<open>h.GetFinalizer() + "-" + finalizer\<close>: the copy is taken after the finalizer has been
  ensured on the fetched object.
\<close>

theorem EnsureTopologyRef_success_has_token:
  assumes run: "EnsureTopologyRef h topologyRef finalizer dls dmlk s = (Returns (obj, hash, None), s')"
  shows "\<exists>q. obj = Some q \<and> q < length (heap s')
           \<and> finalizer_token h finalizer \<in> set (Finalizers (heap s' ! q))"
proof (cases "invalid_ref topologyRef")
  case True
  from ETR_invalid [OF True, of h finalizer dls dmlk s] run show ?thesis by simp
next
  case False
  then obtain r where r: "topologyRef = Some r"
    and n: "ref_Name r \<noteq> []" and ns: "ref_Namespace r \<noteq> []"
    by (auto simp: invalid_ref_def split: option.splits)
  obtain ob hh err w where
    f: "GetTopologyByName h (ref_Name r) (ref_Namespace r) (world s) = ((ob, hh, err), w)"
    by (metis prod.exhaust)
  show ?thesis
  proof (cases err)
    case (Some e)
    from ETR_fetch_error [OF n ns f [unfolded Some], of finalizer dls dmlk] run r
    show ?thesis by simp
  next
    case None
    note errNone = None
    show ?thesis
    proof (cases ob)
      case None
      from ETR_nil_object [OF n ns f [unfolded errNone None], of finalizer dls dmlk] run r
      show ?thesis by simp
    next
      case (Some t)
      note f' = f [unfolded errNone Some]
      show ?thesis
      proof (cases "finalizer_token h finalizer \<in> set (Finalizers t)")
        case True
        from ETR_present [OF n ns f' True, of dls dmlk] run r True
        show ?thesis by (auto simp: nth_append)
      next
        case False
        obtain uerr w' where
          u: "ClientUpdate h (with_token (finalizer_token h finalizer) t) w = (uerr, w')"
          by (metis prod.exhaust)
        show ?thesis
        proof (cases uerr)
          case None
          from ETR_added [OF n ns f' False u [unfolded None], of dls dmlk] run r
          show ?thesis by (auto simp: nth_append with_token_def)
        next
          case (Some e)
          from ETR_update_error [OF n ns f' False u [unfolded Some], of dls dmlk] run r
          show ?thesis by simp
        qed
      qed
    qed
  qed
qed

theorem EnsureTopologyRef_success_has_token_witness:
  "EnsureTopologyRef (store_Helper None) (Some sample_ref) ''myservice'' service_selector
     [''pod-template-hash''] (sample_state [sample_Topology []] None None) =
     (Returns (Some 1, ''n1a1'', None),
      attached_state service_selector [''pod-template-hash''])
   \<and> (\<exists>q. Some (1::nat) = Some q
        \<and> q < length (heap (attached_state service_selector [''pod-template-hash'']))
        \<and> finalizer_token (store_Helper None) ''myservice''
            \<in> set (Finalizers (heap (attached_state service_selector [''pod-template-hash'']) ! q)))"
  using EnsureTopologyRef_success_has_token [OF sample_attach_fresh] sample_attach_fresh
  by simp

section \<open>When the finalizer is persisted\<close>



section \<open>The runs that fetch an object\<close>

lemma ETR_fetched:
  assumes n: "ref_Name r \<noteq> []" and ns: "ref_Namespace r \<noteq> []"
    and f: "GetTopologyByName h (ref_Name r) (ref_Namespace r) (world s) = ((Some t, hh, None), w)"
    and u: "ClientUpdate h (with_token (finalizer_token h finalizer) t) w = (uerr, w')"
  shows "EnsureTopologyRef h (Some r) finalizer dls dmlk s =
     (if finalizer_token h finalizer \<in> set (Finalizers t)
      then (Returns (Some (Suc (length (heap s))),
                     fst (ObjectHash h (fill_defaults dls dmlk (Spec t))),
                     snd (ObjectHash h (fill_defaults dls dmlk (Spec t)))),
            s\<lparr>world := w,
              heap := heap s @ [t, t\<lparr>Spec := fill_defaults dls dmlk (Spec t)\<rparr>],
              calls := calls s @ [CallGet (ref_Name r) (ref_Namespace r),
                                  CallObjectHash (fill_defaults dls dmlk (Spec t))]\<rparr>)
      else if uerr = None
      then (Returns (Some (Suc (length (heap s))),
                     fst (ObjectHash h (fill_defaults dls dmlk (Spec t))),
                     snd (ObjectHash h (fill_defaults dls dmlk (Spec t)))),
            s\<lparr>world := w',
              heap := heap s @ [with_token (finalizer_token h finalizer) t,
                                (with_token (finalizer_token h finalizer) t)
                                  \<lparr>Spec := fill_defaults dls dmlk (Spec t)\<rparr>],
              calls := calls s @ [CallGet (ref_Name r) (ref_Namespace r),
                                  CallUpdate (with_token (finalizer_token h finalizer) t),
                                  CallObjectHash (fill_defaults dls dmlk (Spec t))]\<rparr>)
      else (Returns (Some (length (heap s)), [], uerr),
            s\<lparr>world := w',
              heap := heap s @ [with_token (finalizer_token h finalizer) t],
              calls := calls s @ [CallGet (ref_Name r) (ref_Namespace r),
                                  CallUpdate (with_token (finalizer_token h finalizer) t)]\<rparr>))"
proof (cases "finalizer_token h finalizer \<in> set (Finalizers t)")
  case True
  from ETR_present [OF n ns f True, of dls dmlk] True show ?thesis by simp
next
  case False
  show ?thesis
  proof (cases uerr)
    case None
    from ETR_added [OF n ns f False u [unfolded None], of dls dmlk] False None
    show ?thesis by simp
  next
    case (Some e)
    from ETR_update_error [OF n ns f False u [unfolded Some], of dls dmlk] False Some
    show ?thesis by simp
  qed
qed

section \<open>The finalizer is persisted before defaults are injected\<close>

text \<open>
  Claim C5. On every run of \<open>EnsureTopologyRef\<close> that issues the \<open>Update\<close> (the fetched
  object \<open>t\<close> lacks the token), the \<open>Update\<close> comes right after the fetch and before any
  hashing, and the object it hands to the store has the specification as fetched: no
  default has been filled in. The store the run ends in is the one the \<open>Update\<close> produced,
  whatever happens afterwards, so a failure of the hashing leaves the persisted finalizer in
  place. An error of the \<open>Update\<close> is returned as it is, with the fetched object and the
  empty hash; then memory holds no copy, and no defaulting or hashing has taken place.
\<close>

theorem EnsureTopologyRef_update_precedes_defaults:
  assumes n: "ref_Name r \<noteq> []" and ns: "ref_Namespace r \<noteq> []"
    and f: "GetTopologyByName h (ref_Name r) (ref_Namespace r) (world s) = ((Some t, hh, None), w)"
    and absent: "finalizer_token h finalizer \<notin> set (Finalizers t)"
    and u: "ClientUpdate h (with_token (finalizer_token h finalizer) t) w = (uerr, w')"
    and run: "EnsureTopologyRef h (Some r) finalizer dls dmlk s = (res, s')"
  shows "issued s s' =
           [CallGet (ref_Name r) (ref_Namespace r),
            CallUpdate (with_token (finalizer_token h finalizer) t)]
           @ (if uerr = None then [CallObjectHash (fill_defaults dls dmlk (Spec t))] else [])
       \<and> Spec (with_token (finalizer_token h finalizer) t) = Spec t
       \<and> world s' = w'
       \<and> (\<forall>e. uerr = Some e \<longrightarrow>
             res = Returns (Some (length (heap s)), [], Some e)
             \<and> heap s' = heap s @ [with_token (finalizer_token h finalizer) t])
       \<and> (uerr = None \<longrightarrow>
             res = Returns (Some (Suc (length (heap s))),
                            fst (ObjectHash h (fill_defaults dls dmlk (Spec t))),
                            snd (ObjectHash h (fill_defaults dls dmlk (Spec t))))
             \<and> heap s' = heap s @ [with_token (finalizer_token h finalizer) t,
                                     (with_token (finalizer_token h finalizer) t)
                                       \<lparr>Spec := fill_defaults dls dmlk (Spec t)\<rparr>])"
  using run absent ETR_fetched [OF n ns f u, of dls dmlk]
  by (cases uerr) (auto simp: issued_def with_token_def)

theorem EnsureTopologyRef_update_precedes_defaults_witness:
  "ref_Name sample_ref \<noteq> [] \<and> ref_Namespace sample_ref \<noteq> []
   \<and> finalizer_token (store_Helper None) ''myservice'' \<notin> set (Finalizers (sample_Topology []))
   \<and> GetTopologyByName (store_Helper None) (ref_Name sample_ref) (ref_Namespace sample_ref)
        (world (sample_state [sample_Topology []] None (Some (StatusError StatusReasonConflict)))) =
       ((Some (sample_Topology []), [], None),
        world (sample_state [sample_Topology []] None (Some (StatusError StatusReasonConflict))))
   \<and> ClientUpdate (store_Helper None)
        (with_token (finalizer_token (store_Helper None) ''myservice'') (sample_Topology []))
        (world (sample_state [sample_Topology []] None (Some (StatusError StatusReasonConflict)))) =
       (Some (StatusError StatusReasonConflict),
        world (sample_state [sample_Topology []] None (Some (StatusError StatusReasonConflict))))
   \<and> fst (EnsureTopologyRef (store_Helper None) (Some sample_ref) ''myservice'' service_selector
        [''pod-template-hash'']
        (sample_state [sample_Topology []] None (Some (StatusError StatusReasonConflict)))) =
       Returns (Some 0, [], Some (StatusError StatusReasonConflict))
   \<and> issued (sample_state [sample_Topology []] None (Some (StatusError StatusReasonConflict)))
        (snd (EnsureTopologyRef (store_Helper None) (Some sample_ref) ''myservice''
           service_selector [''pod-template-hash'']
           (sample_state [sample_Topology []] None (Some (StatusError StatusReasonConflict))))) =
       [CallGet ''topo'' ''openstack'', CallUpdate (sample_Topology [''svc-operator-myservice''])]
   \<and> heap (snd (EnsureTopologyRef (store_Helper None) (Some sample_ref) ''myservice''
           service_selector [''pod-template-hash'']
           (sample_state [sample_Topology []] None (Some (StatusError StatusReasonConflict))))) =
       [sample_Topology [''svc-operator-myservice'']]
   \<and> GetTopologyByName (store_Helper (Some (Errorf ''unable to convert to JSON'')))
        (ref_Name sample_ref) (ref_Namespace sample_ref)
        (world (sample_state [sample_Topology []] None None)) =
       ((Some (sample_Topology []), [], None), world (sample_state [sample_Topology []] None None))
   \<and> ClientUpdate (store_Helper (Some (Errorf ''unable to convert to JSON'')))
        (with_token (finalizer_token (store_Helper (Some (Errorf ''unable to convert to JSON'')))
           ''myservice'') (sample_Topology []))
        (world (sample_state [sample_Topology []] None None)) =
       (None, \<lparr>objects = [sample_Topology [''svc-operator-myservice'']],
               get_fault = None, update_fault = None\<rparr>)
   \<and> fst (EnsureTopologyRef (store_Helper (Some (Errorf ''unable to convert to JSON'')))
        (Some sample_ref) ''myservice'' service_selector [''pod-template-hash'']
        (sample_state [sample_Topology []] None None)) =
       Returns (Some 1, [], Some (Errorf ''unable to convert to JSON''))
   \<and> issued (sample_state [sample_Topology []] None None)
        (snd (EnsureTopologyRef (store_Helper (Some (Errorf ''unable to convert to JSON'')))
           (Some sample_ref) ''myservice'' service_selector [''pod-template-hash'']
           (sample_state [sample_Topology []] None None))) =
       [CallGet ''topo'' ''openstack'', CallUpdate (sample_Topology [''svc-operator-myservice'']),
        CallObjectHash (fill_defaults service_selector [''pod-template-hash''] sample_spec)]
   \<and> world (snd (EnsureTopologyRef (store_Helper (Some (Errorf ''unable to convert to JSON'')))
           (Some sample_ref) ''myservice'' service_selector [''pod-template-hash'']
           (sample_state [sample_Topology []] None None))) =
       \<lparr>objects = [sample_Topology [''svc-operator-myservice'']],
        get_fault = None, update_fault = None\<rparr>"
proof -
  let ?d = service_selector
  let ?k = "[''pod-template-hash'']"
  let ?c = "StatusError StatusReasonConflict"
  let ?j = "Errorf ''unable to convert to JSON''"
  let ?sA = "sample_state [sample_Topology []] None (Some ?c)"
  let ?sB = "sample_state [sample_Topology []] None None"
  let ?runA = "EnsureTopologyRef (store_Helper None) (Some sample_ref) ''myservice'' ?d ?k ?sA"
  let ?runB = "EnsureTopologyRef (store_Helper (Some ?j)) (Some sample_ref) ''myservice'' ?d ?k ?sB"
  have n: "ref_Name sample_ref \<noteq> []" and ns: "ref_Namespace sample_ref \<noteq> []"
    by (simp_all add: sample_simps)
  have absent: "finalizer_token (store_Helper hf) ''myservice'' \<notin> set (Finalizers (sample_Topology []))"
    for hf by (simp add: sample_simps)
  have fA: "GetTopologyByName (store_Helper None) (ref_Name sample_ref) (ref_Namespace sample_ref)
      (world ?sA) = ((Some (sample_Topology []), [], None), world ?sA)"
    by (simp add: sample_simps)
  have uA: "ClientUpdate (store_Helper None)
      (with_token (finalizer_token (store_Helper None) ''myservice'') (sample_Topology []))
      (world ?sA) = (Some ?c, world ?sA)"
    by (simp add: sample_simps)
  have runA: "?runA = (fst ?runA, snd ?runA)" by simp
  note A = EnsureTopologyRef_update_precedes_defaults [OF n ns fA absent uA runA]
  from A have A1: "fst ?runA = Returns (Some 0, [], Some ?c)"
    by (simp add: sample_state_def)
  from A have A2: "issued ?sA (snd ?runA) =
      [CallGet ''topo'' ''openstack'', CallUpdate (sample_Topology [''svc-operator-myservice''])]"
    by (simp add: sample_simps)
  from A have A3: "heap (snd ?runA) = [sample_Topology [''svc-operator-myservice'']]"
    by (simp add: sample_simps)
  have fB: "GetTopologyByName (store_Helper (Some ?j)) (ref_Name sample_ref)
      (ref_Namespace sample_ref) (world ?sB) = ((Some (sample_Topology []), [], None), world ?sB)"
    by (simp add: sample_simps)
  have uB: "ClientUpdate (store_Helper (Some ?j))
      (with_token (finalizer_token (store_Helper (Some ?j)) ''myservice'') (sample_Topology []))
      (world ?sB) =
      (None, \<lparr>objects = [sample_Topology [''svc-operator-myservice'']],
               get_fault = None, update_fault = None\<rparr>)"
    by (simp add: sample_simps)
  have runB: "?runB = (fst ?runB, snd ?runB)" by simp
  note B = EnsureTopologyRef_update_precedes_defaults [OF n ns fB absent uB runB]
  from B have B1: "fst ?runB = Returns (Some 1, [], Some ?j)"
    by (simp add: sample_simps)
  from B have B2: "issued ?sB (snd ?runB) =
      [CallGet ''topo'' ''openstack'', CallUpdate (sample_Topology [''svc-operator-myservice'']),
       CallObjectHash (fill_defaults ?d ?k sample_spec)]"
    by (simp add: sample_simps)
  from B have B3: "world (snd ?runB) =
      \<lparr>objects = [sample_Topology [''svc-operator-myservice'']],
       get_fault = None, update_fault = None\<rparr>"
    by simp
  from n ns absent [of None] fA uA A1 A2 A3 fB uB B1 B2 B3 show ?thesis
    by (intro conjI)
qed

section \<open>Defaults are never persisted\<close>

lemma ETR_at_most_one_Update:
  "length (filter is_Update
     (issued s (snd (EnsureTopologyRef h topologyRef finalizer dls dmlk s)))) \<le> 1"
proof (cases "invalid_ref topologyRef")
  case True
  from ETR_invalid [OF True, of h finalizer dls dmlk s] show ?thesis
    by (simp add: issued_def)
next
  case False
  then obtain r where r: "topologyRef = Some r"
    and n: "ref_Name r \<noteq> []" and ns: "ref_Namespace r \<noteq> []"
    by (auto simp: invalid_ref_def split: option.splits)
  obtain ob hh err w where
    f: "GetTopologyByName h (ref_Name r) (ref_Namespace r) (world s) = ((ob, hh, err), w)"
    by (metis prod.exhaust)
  show ?thesis
  proof (cases err)
    case (Some e)
    from ETR_fetch_error [OF n ns f [unfolded Some], of finalizer dls dmlk] r
    show ?thesis by (simp add: issued_def is_Update_def)
  next
    case None
    note errNone = None
    show ?thesis
    proof (cases ob)
      case None
      from ETR_nil_object [OF n ns f [unfolded errNone None], of finalizer dls dmlk] r
      show ?thesis by (simp add: issued_def is_Update_def)
    next
      case (Some t)
      obtain uerr w' where
        u: "ClientUpdate h (with_token (finalizer_token h finalizer) t) w = (uerr, w')"
        by (metis prod.exhaust)
      from ETR_fetched [OF n ns f [unfolded errNone Some] u, of dls dmlk] r
      show ?thesis by (simp add: issued_def is_Update_def)
    qed
  qed
qed

lemma sample_spec_needs_defaults:
  "fill_defaults service_selector [''pod-template-hash''] sample_spec \<noteq> sample_spec"
proof
  assume "fill_defaults service_selector [''pod-template-hash''] sample_spec = sample_spec"
  then have "TopologySpreadConstraints
      (spec_fill service_selector [''pod-template-hash''] sample_spec) =
      TopologySpreadConstraints sample_spec"
    by (simp add: fill_defaults_spec)
  then show False
    by (simp add: spec_fill_def sample_spec_def spec_constraint_def fill_selector_def
        fill_keys_def bare_constraint_def)
qed

text \<open>
  Claim C4. Every run of \<open>EnsureTopologyRef\<close> issues at most one \<open>Update\<close>. When an object
  \<open>t\<close> is fetched, the \<open>Update\<close>, if there is one, is the finalizer add: it hands the store
  \<open>t\<close> with the token appended, whose specification is that of \<open>t\<close> as fetched, and the
  store the run ends in is the one that \<open>Update\<close> produced (the one the fetch left when
  there is none): nothing is written for the default-fill step. Defaulting works on a
  copy made after the finalizer step: the fetched object stays in memory where the fetch
  put it, with the token ensured and its specification as fetched, and the defaulted
  object is a second object, at the next address, which is the one returned.
\<close>

theorem EnsureTopologyRef_defaults_not_persisted:
  assumes run: "EnsureTopologyRef h topologyRef finalizer dls dmlk s = (res, s')"
  shows "length (filter is_Update (issued s s')) \<le> 1
    \<and> (\<forall>r t hh w.
          topologyRef = Some r \<and> ref_Name r \<noteq> [] \<and> ref_Namespace r \<noteq> []
          \<and> GetTopologyByName h (ref_Name r) (ref_Namespace r) (world s) = ((Some t, hh, None), w)
          \<longrightarrow>
            filter is_Update (issued s s') =
              (if finalizer_token h finalizer \<in> set (Finalizers t) then []
               else [CallUpdate (with_token (finalizer_token h finalizer) t)])
            \<and> Spec (with_token (finalizer_token h finalizer) t) = Spec t
            \<and> world s' =
                (if finalizer_token h finalizer \<in> set (Finalizers t) then w
                 else snd (ClientUpdate h (with_token (finalizer_token h finalizer) t) w))
            \<and> length (heap s) < length (heap s')
            \<and> heap s' ! length (heap s) = ensured (finalizer_token h finalizer) t
            \<and> Spec (heap s' ! length (heap s)) = Spec t
            \<and> (finalizer_token h finalizer \<in> set (Finalizers t)
                 \<or> fst (ClientUpdate h (with_token (finalizer_token h finalizer) t) w) = None
               \<longrightarrow>
                 res = Returns (Some (Suc (length (heap s))),
                                fst (ObjectHash h (fill_defaults dls dmlk (Spec t))),
                                snd (ObjectHash h (fill_defaults dls dmlk (Spec t))))
                 \<and> heap s' = heap s @
                     [ensured (finalizer_token h finalizer) t,
                      (ensured (finalizer_token h finalizer) t)
                        \<lparr>Spec := fill_defaults dls dmlk (Spec t)\<rparr>]))"
proof (intro conjI allI impI)
  from ETR_at_most_one_Update [of s h topologyRef finalizer dls dmlk] run
  show "length (filter is_Update (issued s s')) \<le> 1" by simp
next
  fix r t hh w
  assume a: "topologyRef = Some r \<and> ref_Name r \<noteq> [] \<and> ref_Namespace r \<noteq> []
          \<and> GetTopologyByName h (ref_Name r) (ref_Namespace r) (world s) = ((Some t, hh, None), w)"
  then have r: "topologyRef = Some r" and n: "ref_Name r \<noteq> []" and ns: "ref_Namespace r \<noteq> []"
    and f: "GetTopologyByName h (ref_Name r) (ref_Namespace r) (world s) = ((Some t, hh, None), w)"
    by simp_all
  let ?tok = "finalizer_token h finalizer"
  obtain uerr w' where u: "ClientUpdate h (with_token ?tok t) w = (uerr, w')"
    by (metis prod.exhaust)
  note E = ETR_fetched [OF n ns f u, of dls dmlk] run [unfolded r]
  show "filter is_Update (issued s s') =
          (if ?tok \<in> set (Finalizers t) then [] else [CallUpdate (with_token ?tok t)])"
    using E by (auto simp: issued_def is_Update_def split: if_splits)
  show "Spec (with_token ?tok t) = Spec t"
    by (simp add: with_token_def)
  show "world s' = (if ?tok \<in> set (Finalizers t) then w
                    else snd (ClientUpdate h (with_token ?tok t) w))"
    using E u by (auto split: if_splits)
  show "length (heap s) < length (heap s')"
    using E by (auto split: if_splits)
  show "heap s' ! length (heap s) = ensured ?tok t"
    using E by (auto simp: ensured_def nth_append split: if_splits)
  show "Spec (heap s' ! length (heap s)) = Spec t"
    using E by (auto simp: with_token_def nth_append split: if_splits)
  assume ok: "?tok \<in> set (Finalizers t) \<or> fst (ClientUpdate h (with_token ?tok t) w) = None"
  show "res = Returns (Some (Suc (length (heap s))),
                       fst (ObjectHash h (fill_defaults dls dmlk (Spec t))),
                       snd (ObjectHash h (fill_defaults dls dmlk (Spec t))))"
    using E u ok by (auto split: if_splits)
  show "heap s' = heap s @
          [ensured ?tok t, (ensured ?tok t)\<lparr>Spec := fill_defaults dls dmlk (Spec t)\<rparr>]"
    using E u ok by (auto simp: ensured_def split: if_splits)
qed

theorem EnsureTopologyRef_defaults_not_persisted_witness:
  "EnsureTopologyRef (store_Helper None) (Some sample_ref) ''myservice'' service_selector
        [''pod-template-hash''] (sample_state [sample_Topology []] None None) =
       (Returns (Some 1, ''n1a1'', None), attached_state service_selector [''pod-template-hash''])
   \<and> ref_Name sample_ref \<noteq> [] \<and> ref_Namespace sample_ref \<noteq> []
   \<and> GetTopologyByName (store_Helper None) (ref_Name sample_ref) (ref_Namespace sample_ref)
        (world (sample_state [sample_Topology []] None None)) =
       ((Some (sample_Topology []), [], None),
        world (sample_state [sample_Topology []] None None))
   \<and> fst (ClientUpdate (store_Helper None)
        (with_token (finalizer_token (store_Helper None) ''myservice'') (sample_Topology []))
        (world (sample_state [sample_Topology []] None None))) = None
   \<and> length (filter is_Update (issued (sample_state [sample_Topology []] None None)
        (attached_state service_selector [''pod-template-hash'']))) \<le> 1
   \<and> filter is_Update (issued (sample_state [sample_Topology []] None None)
        (attached_state service_selector [''pod-template-hash''])) =
       [CallUpdate (sample_Topology [''svc-operator-myservice''])]
   \<and> Spec (sample_Topology [''svc-operator-myservice'']) = sample_spec
   \<and> fill_defaults service_selector [''pod-template-hash''] sample_spec \<noteq> sample_spec
   \<and> world (attached_state service_selector [''pod-template-hash'']) =
       \<lparr>objects = [sample_Topology [''svc-operator-myservice'']],
        get_fault = None, update_fault = None\<rparr>
   \<and> heap (attached_state service_selector [''pod-template-hash'']) =
       [sample_Topology [''svc-operator-myservice''],
        (sample_Topology [''svc-operator-myservice''])
          \<lparr>Spec := fill_defaults service_selector [''pod-template-hash''] sample_spec\<rparr>]"
proof -
  let ?h = "store_Helper None"
  let ?d = service_selector
  let ?k = "[''pod-template-hash'']"
  let ?s0 = "sample_state [sample_Topology []] None None"
  let ?s1 = "attached_state ?d ?k"
  have n: "ref_Name sample_ref \<noteq> []" and ns: "ref_Namespace sample_ref \<noteq> []"
    by (simp_all add: sample_simps)
  have f: "GetTopologyByName ?h (ref_Name sample_ref) (ref_Namespace sample_ref) (world ?s0) =
       ((Some (sample_Topology []), [], None), world ?s0)"
    by (simp add: sample_simps)
  have run: "EnsureTopologyRef ?h (Some sample_ref) ''myservice'' ?d ?k ?s0 =
       (Returns (Some 1, ''n1a1'', None), ?s1)"
    by (rule sample_attach_fresh)
  have u: "fst (ClientUpdate ?h
        (with_token (finalizer_token ?h ''myservice'') (sample_Topology [])) (world ?s0)) = None"
    by (simp add: sample_simps)
  note T = EnsureTopologyRef_defaults_not_persisted [OF run]
  from T have one: "length (filter is_Update (issued ?s0 ?s1)) \<le> 1"
    by (rule conjunct1)
  from n ns f have pre: "Some sample_ref = Some sample_ref
      \<and> ref_Name sample_ref \<noteq> [] \<and> ref_Namespace sample_ref \<noteq> []
      \<and> GetTopologyByName ?h (ref_Name sample_ref) (ref_Namespace sample_ref) (world ?s0) =
          ((Some (sample_Topology []), [], None), world ?s0)"
    by simp
  note D = T [THEN conjunct2, rule_format, OF pre]
  from D have payload: "filter is_Update (issued ?s0 ?s1) =
      [CallUpdate (sample_Topology [''svc-operator-myservice''])]"
    by (simp add: sample_simps)
  have spec: "Spec (sample_Topology [''svc-operator-myservice'']) = sample_spec"
    by (simp add: sample_simps)
  from D have wd: "world ?s1 =
      \<lparr>objects = [sample_Topology [''svc-operator-myservice'']],
       get_fault = None, update_fault = None\<rparr>"
    by (simp add: sample_simps)
  from D u have hp: "heap ?s1 =
      [sample_Topology [''svc-operator-myservice''],
       (sample_Topology [''svc-operator-myservice''])\<lparr>Spec := fill_defaults ?d ?k sample_spec\<rparr>]"
    by (simp add: sample_simps ensured_def)
  from run n ns f u one payload spec sample_spec_needs_defaults wd hp show ?thesis
    by (intro conjI)
qed

section \<open>The defaulting pass fills what is missing and nothing else\<close>

text \<open>
  Claim C1. On every run of \<open>EnsureTopologyRef\<close> that fetches an object \<open>t\<close> and gets past
  the finalizer step (the token was there, or the \<open>Update\<close> succeeded), the object returned
  is the deep copy, and it is \<open>t\<close> with the token ensured and with the specification
  \<open>spec_fill dls dmlk (Spec t)\<close>: in every topology-spread constraint and in every required
  and preferred term under pod-affinity and pod-anti-affinity, the label selector is
  \<open>defaultLabelSelector\<close> if it was unset and is what it was otherwise, and the
  match-label-keys list is \<open>defaultMatchLabelKeys\<close> if it was empty and is what it was
  otherwise; nothing else differs. A constraint or term with both fields set comes back
  unchanged, whatever the defaults are.
\<close>

theorem EnsureTopologyRef_fills_missing_only:
  assumes n: "ref_Name r \<noteq> []" and ns: "ref_Namespace r \<noteq> []"
    and f: "GetTopologyByName h (ref_Name r) (ref_Namespace r) (world s) = ((Some t, hh, None), w)"
    and reach: "finalizer_token h finalizer \<in> set (Finalizers t)
                \<or> fst (ClientUpdate h (with_token (finalizer_token h finalizer) t) w) = None"
    and run: "EnsureTopologyRef h (Some r) finalizer dls dmlk s = (res, s')"
  shows "(\<exists>hash err. res = Returns (Some (Suc (length (heap s))), hash, err))
       \<and> Suc (length (heap s)) < length (heap s')
       \<and> heap s' ! Suc (length (heap s)) =
           (ensured (finalizer_token h finalizer) t)\<lparr>Spec := spec_fill dls dmlk (Spec t)\<rparr>
       \<and> fill_selector dls None = Some dls
       \<and> (\<forall>x. fill_selector dls (Some x) = Some x)
       \<and> fill_keys dmlk [] = dmlk
       \<and> (\<forall>ks. ks \<noteq> [] \<longrightarrow> fill_keys dmlk ks = ks)
       \<and> (\<forall>c. tsc_LabelSelector c \<noteq> None \<and> tsc_MatchLabelKeys c \<noteq> []
              \<longrightarrow> spec_constraint dls dmlk c = c)
       \<and> (\<forall>c. pat_LabelSelector c \<noteq> None \<and> pat_MatchLabelKeys c \<noteq> []
              \<longrightarrow> spec_term dls dmlk c = c)"
proof -
  let ?tok = "finalizer_token h finalizer"
  obtain uerr w' where u: "ClientUpdate h (with_token ?tok t) w = (uerr, w')"
    by (metis prod.exhaust)
  note E = ETR_fetched [OF n ns f u, of dls dmlk] run
  have a: "\<exists>hash err. res = Returns (Some (Suc (length (heap s))), hash, err)"
    using E u reach by (auto split: if_splits)
  have b: "Suc (length (heap s)) < length (heap s')"
    using E u reach by (auto split: if_splits)
  have c: "heap s' ! Suc (length (heap s)) =
           (ensured ?tok t)\<lparr>Spec := spec_fill dls dmlk (Spec t)\<rparr>"
    using E u reach
    by (auto simp: ensured_def nth_append fill_defaults_spec split: if_splits)
  have d: "spec_constraint dls dmlk c = c"
    if "tsc_LabelSelector c \<noteq> None \<and> tsc_MatchLabelKeys c \<noteq> []" for c
    using that by (auto simp: spec_constraint_def fill_selector_def fill_keys_def)
  have e: "spec_term dls dmlk c = c"
    if "pat_LabelSelector c \<noteq> None \<and> pat_MatchLabelKeys c \<noteq> []" for c
    using that by (auto simp: spec_term_def fill_selector_def fill_keys_def)
  have g: "fill_selector dls None = Some dls" "\<forall>x. fill_selector dls (Some x) = Some x"
    "fill_keys dmlk [] = dmlk" "\<forall>ks. ks \<noteq> [] \<longrightarrow> fill_keys dmlk ks = ks"
    by (simp_all add: fill_selector_def fill_keys_def)
  from a b c d e g show ?thesis by blast
qed

theorem EnsureTopologyRef_fills_missing_only_witness:
  "ref_Name sample_ref \<noteq> [] \<and> ref_Namespace sample_ref \<noteq> []
   \<and> GetTopologyByName (store_Helper None) (ref_Name sample_ref) (ref_Namespace sample_ref)
        (world (sample_state [sample_Topology []] None None)) =
       ((Some (sample_Topology []), [], None),
        world (sample_state [sample_Topology []] None None))
   \<and> fst (ClientUpdate (store_Helper None)
        (with_token (finalizer_token (store_Helper None) ''myservice'') (sample_Topology []))
        (world (sample_state [sample_Topology []] None None))) = None
   \<and> EnsureTopologyRef (store_Helper None) (Some sample_ref) ''myservice'' service_selector
        [''pod-template-hash''] (sample_state [sample_Topology []] None None) =
       (Returns (Some 1, ''n1a1'', None), attached_state service_selector [''pod-template-hash''])
   \<and> heap (attached_state service_selector [''pod-template-hash'']) ! 1 =
       \<lparr>Name = ''topo'', Namespace = ''openstack'', Finalizers = [''svc-operator-myservice''],
        Spec =
          \<lparr>TopologySpreadConstraints = Some
             [bare_constraint\<lparr>tsc_LabelSelector := Some service_selector,
                tsc_MatchLabelKeys := [''pod-template-hash'']\<rparr>,
              set_constraint],
           Affinity = Some
             \<lparr>NodeAffinity = None,
              PodAffinity = Some
                \<lparr>pa_RequiredDuringSchedulingIgnoredDuringExecution =
                   [bare_term\<lparr>pat_LabelSelector := Some service_selector,
                      pat_MatchLabelKeys := [''pod-template-hash'']\<rparr>],
                 pa_PreferredDuringSchedulingIgnoredDuringExecution =
                   [\<lparr>Weight = 10,
                     wpat_PodAffinityTerm =
                       bare_term\<lparr>pat_LabelSelector := Some service_selector,
                         pat_MatchLabelKeys := [''pod-template-hash'']\<rparr>\<rparr>]\<rparr>,
              PodAntiAffinity = None\<rparr>\<rparr>\<rparr>
   \<and> tsc_LabelSelector set_constraint = Some app_selector
   \<and> app_selector \<noteq> service_selector
   \<and> tsc_MatchLabelKeys set_constraint = [''rev'']
   \<and> spec_constraint service_selector [''pod-template-hash''] set_constraint = set_constraint"
proof -
  let ?h = "store_Helper None"
  let ?d = service_selector
  let ?k = "[''pod-template-hash'']"
  let ?s0 = "sample_state [sample_Topology []] None None"
  let ?s1 = "attached_state ?d ?k"
  have n: "ref_Name sample_ref \<noteq> []" and ns: "ref_Namespace sample_ref \<noteq> []"
    by (simp_all add: sample_simps)
  have f: "GetTopologyByName ?h (ref_Name sample_ref) (ref_Namespace sample_ref) (world ?s0) =
       ((Some (sample_Topology []), [], None), world ?s0)"
    by (simp add: sample_simps)
  have u: "fst (ClientUpdate ?h
        (with_token (finalizer_token ?h ''myservice'') (sample_Topology [])) (world ?s0)) = None"
    by (simp add: sample_simps)
  have run: "EnsureTopologyRef ?h (Some sample_ref) ''myservice'' ?d ?k ?s0 =
       (Returns (Some 1, ''n1a1'', None), ?s1)"
    by (rule sample_attach_fresh)
  note T = EnsureTopologyRef_fills_missing_only [OF n ns f disjI2 [OF u] run]
  have set1: "tsc_LabelSelector set_constraint = Some app_selector"
    and set2: "tsc_MatchLabelKeys set_constraint = [''rev'']"
    and differ: "app_selector \<noteq> service_selector"
    by (simp_all add: set_constraint_def app_selector_def service_selector_def)
  from T set1 set2 have kept: "spec_constraint ?d ?k set_constraint = set_constraint"
    by simp
  from T have "heap ?s1 ! Suc (length (heap ?s0)) =
      (ensured (finalizer_token ?h ''myservice'') (sample_Topology []))
        \<lparr>Spec := spec_fill ?d ?k (Spec (sample_Topology []))\<rparr>"
    by blast
  then have copy: "heap ?s1 ! 1 =
       \<lparr>Name = ''topo'', Namespace = ''openstack'', Finalizers = [''svc-operator-myservice''],
        Spec =
          \<lparr>TopologySpreadConstraints = Some
             [bare_constraint\<lparr>tsc_LabelSelector := Some service_selector,
                tsc_MatchLabelKeys := [''pod-template-hash'']\<rparr>,
              set_constraint],
           Affinity = Some
             \<lparr>NodeAffinity = None,
              PodAffinity = Some
                \<lparr>pa_RequiredDuringSchedulingIgnoredDuringExecution =
                   [bare_term\<lparr>pat_LabelSelector := Some service_selector,
                      pat_MatchLabelKeys := [''pod-template-hash'']\<rparr>],
                 pa_PreferredDuringSchedulingIgnoredDuringExecution =
                   [\<lparr>Weight = 10,
                     wpat_PodAffinityTerm =
                       bare_term\<lparr>pat_LabelSelector := Some service_selector,
                         pat_MatchLabelKeys := [''pod-template-hash'']\<rparr>\<rparr>]\<rparr>,
              PodAntiAffinity = None\<rparr>\<rparr>\<rparr>"
    by (simp add: sample_state_def ensured_def sample_token sample_Topology_fields
        sample_Topology_def sample_spec_def spec_fill_def spec_Affinity_def
        spec_PodAffinity_def spec_weighted_def spec_term_def spec_constraint_def
        fill_selector_def fill_keys_def bare_constraint_def bare_term_def
        set_constraint_def with_token_def)
  from n ns f u run copy set1 differ set2 kept show ?thesis
    by (intro conjI)
qed

section \<open>Failure of the hash computation\<close>

text \<open>
  Claim C8. When \<open>util.ObjectHash\<close>, applied to the defaulted specification of the copy,
  returns an error, \<open>EnsureTopologyRef\<close> returns that very error together with the
  defaulted copy and the hash string that came with the error, which is the empty string
  under the contract of \<open>util.ObjectHash\<close>. The copy is not persisted: the hashing is the
  last call of the run, and the only \<open>Update\<close>, if any, is the finalizer add on the fetched
  object.
\<close>

theorem EnsureTopologyRef_hash_error:
  assumes n: "ref_Name r \<noteq> []" and ns: "ref_Namespace r \<noteq> []"
    and f: "GetTopologyByName h (ref_Name r) (ref_Namespace r) (world s) = ((Some t, hh, None), w)"
    and reach: "finalizer_token h finalizer \<in> set (Finalizers t)
                \<or> fst (ClientUpdate h (with_token (finalizer_token h finalizer) t) w) = None"
    and oh: "ObjectHash h (fill_defaults dls dmlk (Spec t)) = (hsh, Some e)"
    and run: "EnsureTopologyRef h (Some r) finalizer dls dmlk s = (res, s')"
  shows "res = Returns (Some (Suc (length (heap s))), hsh, Some e)
       \<and> Suc (length (heap s)) < length (heap s')
       \<and> heap s' ! Suc (length (heap s)) =
           (ensured (finalizer_token h finalizer) t)\<lparr>Spec := fill_defaults dls dmlk (Spec t)\<rparr>
       \<and> filter is_Update (issued s s') =
           (if finalizer_token h finalizer \<in> set (Finalizers t) then []
            else [CallUpdate (with_token (finalizer_token h finalizer) t)])
       \<and> last (issued s s') = CallObjectHash (fill_defaults dls dmlk (Spec t))
       \<and> (ObjectHash_contract h (fill_defaults dls dmlk (Spec t)) \<longrightarrow>
             hsh = [] \<and> res = Returns (Some (Suc (length (heap s))), [], Some e))"
proof -
  let ?tok = "finalizer_token h finalizer"
  obtain uerr w' where u: "ClientUpdate h (with_token ?tok t) w = (uerr, w')"
    by (metis prod.exhaust)
  note E = ETR_fetched [OF n ns f u, of dls dmlk] run
  have a: "res = Returns (Some (Suc (length (heap s))), hsh, Some e)"
    using E u reach oh by (auto split: if_splits)
  have b: "Suc (length (heap s)) < length (heap s')"
    using E u reach by (auto split: if_splits)
  have c: "heap s' ! Suc (length (heap s)) =
           (ensured ?tok t)\<lparr>Spec := fill_defaults dls dmlk (Spec t)\<rparr>"
    using E u reach by (auto simp: ensured_def nth_append split: if_splits)
  have d: "filter is_Update (issued s s') =
           (if ?tok \<in> set (Finalizers t) then [] else [CallUpdate (with_token ?tok t)])"
    using E u reach by (auto simp: issued_def is_Update_def split: if_splits)
  have l: "last (issued s s') = CallObjectHash (fill_defaults dls dmlk (Spec t))"
    using E u reach by (auto simp: issued_def split: if_splits)
  have k: "hsh = []" if "ObjectHash_contract h (fill_defaults dls dmlk (Spec t))"
    using that oh by (simp add: ObjectHash_contract_def)
  from a b c d l k show ?thesis by simp
qed

theorem EnsureTopologyRef_hash_error_witness:
  "ref_Name sample_ref \<noteq> [] \<and> ref_Namespace sample_ref \<noteq> []
   \<and> GetTopologyByName (store_Helper (Some (Errorf ''unable to convert to JSON'')))
        (ref_Name sample_ref) (ref_Namespace sample_ref)
        (world (sample_state [sample_Topology []] None None)) =
       ((Some (sample_Topology []), [], None), world (sample_state [sample_Topology []] None None))
   \<and> fst (ClientUpdate (store_Helper (Some (Errorf ''unable to convert to JSON'')))
        (with_token (finalizer_token (store_Helper (Some (Errorf ''unable to convert to JSON'')))
           ''myservice'') (sample_Topology []))
        (world (sample_state [sample_Topology []] None None))) = None
   \<and> ObjectHash (store_Helper (Some (Errorf ''unable to convert to JSON'')))
        (fill_defaults service_selector [''pod-template-hash''] (Spec (sample_Topology []))) =
       ([], Some (Errorf ''unable to convert to JSON''))
   \<and> ObjectHash_contract (store_Helper (Some (Errorf ''unable to convert to JSON'')))
        (fill_defaults service_selector [''pod-template-hash''] (Spec (sample_Topology [])))
   \<and> fst (EnsureTopologyRef (store_Helper (Some (Errorf ''unable to convert to JSON'')))
        (Some sample_ref) ''myservice'' service_selector [''pod-template-hash'']
        (sample_state [sample_Topology []] None None)) =
       Returns (Some 1, [], Some (Errorf ''unable to convert to JSON''))
   \<and> heap (snd (EnsureTopologyRef (store_Helper (Some (Errorf ''unable to convert to JSON'')))
        (Some sample_ref) ''myservice'' service_selector [''pod-template-hash'']
        (sample_state [sample_Topology []] None None))) ! 1 =
       (sample_Topology [''svc-operator-myservice''])
         \<lparr>Spec := fill_defaults service_selector [''pod-template-hash''] sample_spec\<rparr>
   \<and> filter is_Update (issued (sample_state [sample_Topology []] None None)
        (snd (EnsureTopologyRef (store_Helper (Some (Errorf ''unable to convert to JSON'')))
           (Some sample_ref) ''myservice'' service_selector [''pod-template-hash'']
           (sample_state [sample_Topology []] None None)))) =
       [CallUpdate (sample_Topology [''svc-operator-myservice''])]"
proof -
  let ?j = "Errorf ''unable to convert to JSON''"
  let ?h = "store_Helper (Some ?j)"
  let ?d = service_selector
  let ?k = "[''pod-template-hash'']"
  let ?s0 = "sample_state [sample_Topology []] None None"
  let ?run = "EnsureTopologyRef ?h (Some sample_ref) ''myservice'' ?d ?k ?s0"
  have n: "ref_Name sample_ref \<noteq> []" and ns: "ref_Namespace sample_ref \<noteq> []"
    by (simp_all add: sample_simps)
  have f: "GetTopologyByName ?h (ref_Name sample_ref) (ref_Namespace sample_ref) (world ?s0) =
       ((Some (sample_Topology []), [], None), world ?s0)"
    by (simp add: sample_simps)
  have u: "fst (ClientUpdate ?h
        (with_token (finalizer_token ?h ''myservice'') (sample_Topology [])) (world ?s0)) = None"
    by (simp add: sample_simps)
  have oh: "ObjectHash ?h (fill_defaults ?d ?k (Spec (sample_Topology []))) = ([], Some ?j)"
    by (simp add: sample_simps)
  have ct: "ObjectHash_contract ?h (fill_defaults ?d ?k (Spec (sample_Topology [])))"
    by (simp add: ObjectHash_contract_def oh)
  have run: "?run = (fst ?run, snd ?run)" by simp
  note T = EnsureTopologyRef_hash_error [OF n ns f disjI2 [OF u] oh run]
  from T ct have r1: "fst ?run = Returns (Some 1, [], Some ?j)"
    by (simp add: sample_state_def)
  from T have r2: "heap (snd ?run) ! 1 =
      (sample_Topology [''svc-operator-myservice''])\<lparr>Spec := fill_defaults ?d ?k sample_spec\<rparr>"
    by (simp add: sample_simps ensured_def)
  from T have r3: "filter is_Update (issued ?s0 (snd ?run)) =
      [CallUpdate (sample_Topology [''svc-operator-myservice''])]"
    by (simp add: sample_simps)
  from n ns f u oh ct r1 r2 r3 show ?thesis
    by (intro conjI)
qed

section \<open>Detaching\<close>

text \<open>
  Claim C7. \<open>EnsureDeletedTopologyRef\<close> with a valid reference: if the fetch fails with a
  not-found error, it returns a nil error and does nothing more (the fetch is its only
  call); if the fetch fails with another error, that error is returned; if the fetch
  succeeds and the token is in the finalizer list of the fetched object \<open>t\<close>, the one
  \<open>Update\<close> issued hands the store \<open>t\<close> without the token, the store is then as that
  \<open>Update\<close> left it, a nil or not-found result of the \<open>Update\<close> gives a nil error, and any
  other error of the \<open>Update\<close> is returned. If the token is not there, nothing is written
  and the error is nil.
\<close>

theorem EnsureDeletedTopologyRef_outcomes:
  assumes n: "ref_Name r \<noteq> []" and ns: "ref_Namespace r \<noteq> []"
    and f: "GetTopologyByName h (ref_Name r) (ref_Namespace r) (world s) = ((obj, hh, err), w)"
    and run: "EnsureDeletedTopologyRef h c (Some r) finalizer s = (res, s')"
  shows "(IsNotFound err \<longrightarrow>
            res = Returns (empty_Result, None)
            \<and> issued s s' = [CallGet (ref_Name r) (ref_Namespace r)] \<and> world s' = w)
       \<and> (\<forall>e. err = Some e \<and> \<not> IsNotFound (Some e) \<longrightarrow>
            res = Returns (empty_Result, Some e)
            \<and> issued s s' = [CallGet (ref_Name r) (ref_Namespace r)] \<and> world s' = w)
       \<and> (\<forall>t uerr w'.
            err = None \<and> obj = Some t \<and> finalizer_token h finalizer \<in> set (Finalizers t)
            \<and> c (without_token (finalizer_token h finalizer) t) w = (uerr, w') \<longrightarrow>
              finalizer_token h finalizer
                \<notin> set (Finalizers (without_token (finalizer_token h finalizer) t))
              \<and> filter is_Update (issued s s') =
                  [CallUpdate (without_token (finalizer_token h finalizer) t)]
              \<and> world s' = w'
              \<and> (uerr = None \<or> IsNotFound uerr \<longrightarrow> res = Returns (empty_Result, None))
              \<and> (\<forall>e. uerr = Some e \<and> \<not> IsNotFound (Some e) \<longrightarrow>
                    res = Returns (empty_Result, Some e)))
       \<and> (\<forall>t. err = None \<and> obj = Some t
              \<and> finalizer_token h finalizer \<notin> set (Finalizers t) \<longrightarrow>
              res = Returns (empty_Result, None)
              \<and> issued s s' = [CallGet (ref_Name r) (ref_Namespace r)] \<and> world s' = w)"
proof (intro conjI allI impI)
  let ?tok = "finalizer_token h finalizer"
  {
    assume nf: "IsNotFound err"
    from EDT_not_found [OF n ns f nf, of c finalizer] run
    show "res = Returns (empty_Result, None)"
      and "issued s s' = [CallGet (ref_Name r) (ref_Namespace r)]" and "world s' = w"
      by (auto simp: issued_def)
  }
  {
    fix e assume a: "err = Some e \<and> \<not> IsNotFound (Some e)"
    from EDT_fetch_error [OF n ns f [unfolded conjunct1 [OF a]] conjunct2 [OF a], of c finalizer] run
    show "res = Returns (empty_Result, Some e)"
      and "issued s s' = [CallGet (ref_Name r) (ref_Namespace r)]" and "world s' = w"
      by (auto simp: issued_def)
  }
  {
    fix t uerr w'
    assume a: "err = None \<and> obj = Some t \<and> ?tok \<in> set (Finalizers t)
            \<and> c (without_token ?tok t) w = (uerr, w')"
    then have f': "GetTopologyByName h (ref_Name r) (ref_Namespace r) (world s) =
        ((Some t, hh, None), w)"
      and tk: "?tok \<in> set (Finalizers t)" and u: "c (without_token ?tok t) w = (uerr, w')"
      using f by simp_all
    note E = EDT_removed [where c = c and finalizer = finalizer and h = h, OF n ns f' tk u] run
    show "?tok \<notin> set (Finalizers (without_token ?tok t))"
      by (simp add: without_token_def)
    show "filter is_Update (issued s s') = [CallUpdate (without_token ?tok t)]"
      using E by (auto simp: issued_def is_Update_def split: if_splits)
    show "world s' = w'"
      using E by (auto split: if_splits)
    {
      assume "uerr = None \<or> IsNotFound uerr"
      then show "res = Returns (empty_Result, None)"
        using E by (auto split: if_splits)
    }
    {
      fix e assume "uerr = Some e \<and> \<not> IsNotFound (Some e)"
      then show "res = Returns (empty_Result, Some e)"
        using E by (auto split: if_splits)
    }
  }
  {
    fix t assume a: "err = None \<and> obj = Some t \<and> ?tok \<notin> set (Finalizers t)"
    then have f': "GetTopologyByName h (ref_Name r) (ref_Namespace r) (world s) =
        ((Some t, hh, None), w)"
      and tk: "?tok \<notin> set (Finalizers t)"
      using f by simp_all
    from EDT_absent [OF n ns f' tk, of c] run
    show "res = Returns (empty_Result, None)"
      and "issued s s' = [CallGet (ref_Name r) (ref_Namespace r)]" and "world s' = w"
      by (auto simp: issued_def)
  }
qed

theorem EnsureDeletedTopologyRef_outcomes_witness:
  "ref_Name sample_ref \<noteq> [] \<and> ref_Namespace sample_ref \<noteq> []
   \<and> GetTopologyByName (store_Helper None) (ref_Name sample_ref) (ref_Namespace sample_ref)
        (world (sample_state [] None None)) =
       ((Some blank_Topology, [], Some (StatusError StatusReasonNotFound)),
        world (sample_state [] None None))
   \<and> IsNotFound (Some (StatusError StatusReasonNotFound))
   \<and> fst (sample_detach (sample_state [] None None)) = Returns (empty_Result, None)
   \<and> issued (sample_state [] None None) (snd (sample_detach (sample_state [] None None))) =
       [CallGet ''topo'' ''openstack'']
   \<and> GetTopologyByName (store_Helper None) (ref_Name sample_ref) (ref_Namespace sample_ref)
        (world (sample_state [sample_Topology [''svc-operator-myservice'']]
           (Some (StatusError StatusReasonConflict)) None)) =
       ((Some blank_Topology, [], Some (StatusError StatusReasonConflict)),
        world (sample_state [sample_Topology [''svc-operator-myservice'']]
           (Some (StatusError StatusReasonConflict)) None))
   \<and> \<not> IsNotFound (Some (StatusError StatusReasonConflict))
   \<and> fst (sample_detach (sample_state [sample_Topology [''svc-operator-myservice'']]
           (Some (StatusError StatusReasonConflict)) None)) =
       Returns (empty_Result, Some (StatusError StatusReasonConflict))
   \<and> GetTopologyByName (store_Helper None) (ref_Name sample_ref) (ref_Namespace sample_ref)
        (world (sample_state [sample_Topology [''svc-operator-myservice'']] None None)) =
       ((Some (sample_Topology [''svc-operator-myservice'']), [], None),
        world (sample_state [sample_Topology [''svc-operator-myservice'']] None None))
   \<and> finalizer_token (store_Helper None) ''myservice''
        \<in> set (Finalizers (sample_Topology [''svc-operator-myservice'']))
   \<and> store_Update
        (without_token (finalizer_token (store_Helper None) ''myservice'')
           (sample_Topology [''svc-operator-myservice'']))
        (world (sample_state [sample_Topology [''svc-operator-myservice'']] None None)) =
       (None, \<lparr>objects = [sample_Topology []], get_fault = None, update_fault = None\<rparr>)
   \<and> fst (sample_detach (sample_state [sample_Topology [''svc-operator-myservice'']] None None)) =
       Returns (empty_Result, None)
   \<and> filter is_Update
        (issued (sample_state [sample_Topology [''svc-operator-myservice'']] None None)
           (snd (sample_detach
              (sample_state [sample_Topology [''svc-operator-myservice'']] None None)))) =
       [CallUpdate (sample_Topology [])]
   \<and> world (snd (sample_detach
           (sample_state [sample_Topology [''svc-operator-myservice'']] None None))) =
       \<lparr>objects = [sample_Topology []], get_fault = None, update_fault = None\<rparr>
   \<and> store_Update
        (without_token (finalizer_token (store_Helper None) ''myservice'')
           (sample_Topology [''svc-operator-myservice'']))
        (world (sample_state [sample_Topology [''svc-operator-myservice'']] None
           (Some (StatusError StatusReasonNotFound)))) =
       (Some (StatusError StatusReasonNotFound),
        world (sample_state [sample_Topology [''svc-operator-myservice'']] None
           (Some (StatusError StatusReasonNotFound))))
   \<and> fst (sample_detach (sample_state [sample_Topology [''svc-operator-myservice'']] None
           (Some (StatusError StatusReasonNotFound)))) =
       Returns (empty_Result, None)
   \<and> store_Update
        (without_token (finalizer_token (store_Helper None) ''myservice'')
           (sample_Topology [''svc-operator-myservice'']))
        (world (sample_state [sample_Topology [''svc-operator-myservice'']] None
           (Some (StatusError StatusReasonConflict)))) =
       (Some (StatusError StatusReasonConflict),
        world (sample_state [sample_Topology [''svc-operator-myservice'']] None
           (Some (StatusError StatusReasonConflict))))
   \<and> fst (sample_detach (sample_state [sample_Topology [''svc-operator-myservice'']] None
           (Some (StatusError StatusReasonConflict)))) =
       Returns (empty_Result, Some (StatusError StatusReasonConflict))"
proof -
  let ?h = "store_Helper None"
  let ?nf = "StatusError StatusReasonNotFound"
  let ?cf = "StatusError StatusReasonConflict"
  let ?held = "sample_Topology [''svc-operator-myservice'']"
  let ?gone = "without_token (finalizer_token ?h ''myservice'') ?held"
  have n: "ref_Name sample_ref \<noteq> []" and ns: "ref_Namespace sample_ref \<noteq> []"
    by (simp_all add: sample_simps)
  have run: "EnsureDeletedTopologyRef ?h store_Update (Some sample_ref) ''myservice'' s =
      (fst (sample_detach s), snd (sample_detach s))" for s
    by (simp add: sample_detach_def)
  note T = EnsureDeletedTopologyRef_outcomes [OF n ns _ run]
  have tk: "finalizer_token ?h ''myservice'' \<in> set (Finalizers ?held)"
    by (simp add: sample_simps)
  have gone: "?gone = sample_Topology []"
    by (simp add: sample_simps)
  \<comment> \<open>the target is missing\<close>
  let ?sa = "sample_state [] None None"
  have fa: "GetTopologyByName ?h (ref_Name sample_ref) (ref_Namespace sample_ref) (world ?sa) =
      ((Some blank_Topology, [], Some ?nf), world ?sa)"
    by (simp add: sample_simps)
  have nfa: "IsNotFound (Some ?nf)" by simp
  note A = T [OF fa, THEN conjunct1, rule_format, OF nfa]
  from A have a1: "fst (sample_detach ?sa) = Returns (empty_Result, None)" by simp
  from A have a2: "issued ?sa (snd (sample_detach ?sa)) = [CallGet ''topo'' ''openstack'']"
    by (simp add: sample_simps)
  \<comment> \<open>the fetch fails otherwise\<close>
  let ?sb = "sample_state [?held] (Some ?cf) None"
  have fb: "GetTopologyByName ?h (ref_Name sample_ref) (ref_Namespace sample_ref) (world ?sb) =
      ((Some blank_Topology, [], Some ?cf), world ?sb)"
    by (simp add: sample_simps)
  have nfb: "\<not> IsNotFound (Some ?cf)" by simp
  have preb: "Some ?cf = Some ?cf \<and> \<not> IsNotFound (Some ?cf)" by simp
  note B = T [OF fb, THEN conjunct2, THEN conjunct1, rule_format, OF preb]
  from B have b1: "fst (sample_detach ?sb) = Returns (empty_Result, Some ?cf)" by simp
  \<comment> \<open>the token is removed and persisted\<close>
  let ?sc = "sample_state [?held] None None"
  have fc: "GetTopologyByName ?h (ref_Name sample_ref) (ref_Namespace sample_ref) (world ?sc) =
      ((Some ?held, [], None), world ?sc)"
    by (simp add: sample_simps)
  have uc: "store_Update ?gone (world ?sc) =
      (None, \<lparr>objects = [sample_Topology []], get_fault = None, update_fault = None\<rparr>)"
    unfolding gone by (simp add: sample_simps)
  have prec: "(None::error option) = None \<and> Some ?held = Some ?held
      \<and> finalizer_token ?h ''myservice'' \<in> set (Finalizers ?held)
      \<and> store_Update ?gone (world ?sc) =
          (None, \<lparr>objects = [sample_Topology []], get_fault = None, update_fault = None\<rparr>)"
    using tk uc by simp
  note C = T [OF fc, THEN conjunct2, THEN conjunct2, THEN conjunct1, rule_format, OF prec]
  from C have c1: "fst (sample_detach ?sc) = Returns (empty_Result, None)" by simp
  from C have c2: "filter is_Update (issued ?sc (snd (sample_detach ?sc))) =
      [CallUpdate (sample_Topology [])]"
    by (simp add: gone)
  from C have c3: "world (snd (sample_detach ?sc)) =
      \<lparr>objects = [sample_Topology []], get_fault = None, update_fault = None\<rparr>"
    by simp
  \<comment> \<open>the object vanishes before the write\<close>
  let ?sd = "sample_state [?held] None (Some ?nf)"
  have fd: "GetTopologyByName ?h (ref_Name sample_ref) (ref_Namespace sample_ref) (world ?sd) =
      ((Some ?held, [], None), world ?sd)"
    by (simp add: sample_simps)
  have ud: "store_Update ?gone (world ?sd) = (Some ?nf, world ?sd)"
    by (simp add: sample_simps)
  have pred: "(None::error option) = None \<and> Some ?held = Some ?held
      \<and> finalizer_token ?h ''myservice'' \<in> set (Finalizers ?held)
      \<and> store_Update ?gone (world ?sd) = (Some ?nf, world ?sd)"
    using tk ud by simp
  note D = T [OF fd, THEN conjunct2, THEN conjunct2, THEN conjunct1, rule_format, OF pred]
  from D have d1: "fst (sample_detach ?sd) = Returns (empty_Result, None)" by simp
  \<comment> \<open>the write fails otherwise\<close>
  let ?se = "sample_state [?held] None (Some ?cf)"
  have fe: "GetTopologyByName ?h (ref_Name sample_ref) (ref_Namespace sample_ref) (world ?se) =
      ((Some ?held, [], None), world ?se)"
    by (simp add: sample_simps)
  have ue: "store_Update ?gone (world ?se) = (Some ?cf, world ?se)"
    by (simp add: sample_simps)
  have pree: "(None::error option) = None \<and> Some ?held = Some ?held
      \<and> finalizer_token ?h ''myservice'' \<in> set (Finalizers ?held)
      \<and> store_Update ?gone (world ?se) = (Some ?cf, world ?se)"
    using tk ue by simp
  note E = T [OF fe, THEN conjunct2, THEN conjunct2, THEN conjunct1, rule_format, OF pree]
  from E have e1: "fst (sample_detach ?se) = Returns (empty_Result, Some ?cf)" by simp
  from n ns fa nfa a1 a2 fb nfb b1 fc tk uc c1 c2 c3 ud d1 ue e1 show ?thesis
    by (intro conjI)
qed

section \<open>The hash is the digest of the defaulted specification\<close>








end
